theory Spec2Isabelle
  imports Main "HOL-Library.Char_ord" "HOL-Library.List_Lexorder"
begin

section \<open>The knowledge-base loader of \<^verbatim>\<open>loaders/loadAIKB.py\<close>\<close>

text \<open>
  A URL is a Python \<^verbatim>\<open>str\<close>; it is modelled as a \<^typ>\<open>string\<close> whose characters are the
  code points below 256, so that \<^const>\<open>length\<close> is Python's \<^verbatim>\<open>len\<close>. An exception is a
  value carrying the text that \<^verbatim>\<open>str(e)\<close> gives.
\<close>

datatype exn = Exception string

subsection \<open>String helpers of the Python runtime\<close>

text \<open>
  \<^verbatim>\<open>str.isspace\<close> on the code points below 256: tab, line feed, vertical tab, form feed,
  carriage return, the separators 28 to 31, the space, NEL (133) and the no-break space (160).
\<close>

definition isspace :: "char \<Rightarrow> bool" where
  "isspace c = (let n = (of_char c :: nat) in
      (9 \<le> n \<and> n \<le> 13) \<or> (28 \<le> n \<and> n \<le> 32) \<or> n = 133 \<or> n = 160)"

text \<open>\<^verbatim>\<open>str.strip()\<close>: whitespace removed on both sides.\<close>

definition strip :: "string \<Rightarrow> string" where
  "strip s = rev (dropWhile isspace (rev (dropWhile isspace s)))"

text \<open>\<^verbatim>\<open>str.lower()\<close> on the ASCII letters, which is all the scheme and the patterns need.\<close>

definition lower_char :: "char \<Rightarrow> char" where
  "lower_char c = (let n = (of_char c :: nat) in
      if 65 \<le> n \<and> n \<le> 90 then char_of (n + 32) else c)"

definition lower :: "string \<Rightarrow> string" where
  "lower s = map lower_char s"

fun startswith :: "string \<Rightarrow> string \<Rightarrow> bool" where
  "startswith s [] = True"
| "startswith [] (p # ps) = False"
| "startswith (c # cs) (p # ps) = (c = p \<and> startswith cs ps)"

definition endswith :: "string \<Rightarrow> string \<Rightarrow> bool" where
  "endswith s suf = startswith (rev s) (rev suf)"

text \<open>\<^verbatim>\<open>p in s\<close> for strings: \<open>p\<close> occurs in \<open>s\<close> as a contiguous run.\<close>

fun contains :: "string \<Rightarrow> string \<Rightarrow> bool" where
  "contains [] p = (p = [])"
| "contains (c # cs) p = (startswith (c # cs) p \<or> contains cs p)"

text \<open>
  \<^verbatim>\<open>re.search(pattern, s, re.IGNORECASE)\<close> for the six patterns of the validator, each of
  which is a literal text once its escaped dots are read as dots: a case-insensitive
  substring test.
\<close>

definition re_search_ignorecase :: "string \<Rightarrow> string \<Rightarrow> bool" where
  "re_search_ignorecase literal s = contains (lower s) (lower literal)"

subsection \<open>\<^verbatim>\<open>urllib.parse.urlparse\<close>: scheme and netloc\<close>

text \<open>
  The validator reads two attributes of \<^verbatim>\<open>urlparse(clean_url)\<close>, \<^verbatim>\<open>scheme\<close> and
  \<^verbatim>\<open>netloc\<close>. The function belongs to Python's standard library; the definitions below
  follow \<^verbatim>\<open>urlsplit\<close> of CPython 3.12 for these two attributes: leading C0 controls and
  spaces are dropped, tab, carriage return and line feed are deleted, the text before the
  first colon is the scheme when it starts with an ASCII letter and consists of scheme
  characters, and after \<^verbatim>\<open>//\<close> the netloc runs up to the first of \<^verbatim>\<open>/ ? #\<close>. A netloc
  with a \<^verbatim>\<open>[\<close> and no \<^verbatim>\<open>]\<close>, or a \<^verbatim>\<open>]\<close> and no \<^verbatim>\<open>[\<close>, raises
  \<^verbatim>\<open>ValueError("Invalid IPv6 URL")\<close>. The library's further checks of a netloc (the
  address between matching brackets, the NFKC form of non-ASCII hosts) are not modelled.
\<close>

definition is_ascii_alpha :: "char \<Rightarrow> bool" where
  "is_ascii_alpha c = (let n = (of_char c :: nat) in
      (65 \<le> n \<and> n \<le> 90) \<or> (97 \<le> n \<and> n \<le> 122))"

definition is_scheme_char :: "char \<Rightarrow> bool" where
  "is_scheme_char c = (let n = (of_char c :: nat) in
      (65 \<le> n \<and> n \<le> 90) \<or> (97 \<le> n \<and> n \<le> 122) \<or> (48 \<le> n \<and> n \<le> 57)
      \<or> c = CHR ''+'' \<or> c = CHR ''-'' \<or> c = CHR ''.'')"

definition is_c0_or_space :: "char \<Rightarrow> bool" where
  "is_c0_or_space c = ((of_char c :: nat) \<le> 32)"

definition is_unsafe_byte :: "char \<Rightarrow> bool" where
  "is_unsafe_byte c = (let n = (of_char c :: nat) in n = 9 \<or> n = 13 \<or> n = 10)"

definition is_netloc_delim :: "char \<Rightarrow> bool" where
  "is_netloc_delim c = (c = CHR ''/'' \<or> c = CHR ''?'' \<or> c = CHR ''#'')"

text \<open>The scheme and the rest of the URL after it (\<^verbatim>\<open>i = url.find(':')\<close>, \<^verbatim>\<open>i > 0\<close>).\<close>

definition split_scheme :: "string \<Rightarrow> string \<times> string" where
  "split_scheme url =
     (let before = takeWhile (\<lambda>c. c \<noteq> CHR '':'') url;
          after = dropWhile (\<lambda>c. c \<noteq> CHR '':'') url
      in if after \<noteq> [] \<and> before \<noteq> [] \<and> is_ascii_alpha (hd before)
            \<and> list_all is_scheme_char before
         then (lower before, tl after)
         else ([], url))"

record parse_result =
  scheme :: string
  netloc :: string

definition urlparse :: "string \<Rightarrow> exn + parse_result" where
  "urlparse url0 =
     (let url = filter (\<lambda>c. \<not> is_unsafe_byte c) (dropWhile is_c0_or_space url0);
          (sch, rest) = split_scheme url
      in if startswith rest ''//''
         then (let nl = takeWhile (\<lambda>c. \<not> is_netloc_delim c) (drop 2 rest)
               in if (CHR ''['' \<in> set nl \<and> CHR '']'' \<notin> set nl)
                     \<or> (CHR '']'' \<in> set nl \<and> CHR ''['' \<notin> set nl)
                  then Inl (Exception ''Invalid IPv6 URL'')
                  else Inr \<lparr>scheme = sch, netloc = nl\<rparr>)
         else Inr \<lparr>scheme = sch, netloc = []\<rparr>)"

subsection \<open>Validation and deduplication\<close>

text \<open>The entries of \<^verbatim>\<open>issues_found\<close>; the texts are kept as their parameters.\<close>

datatype issue =
    EmptyUrl nat
  | InvalidFormat string
  | VeryLong nat string
  | Suspicious string

definition suspicious_patterns :: "string list" where
  "suspicious_patterns =
     [''localhost'', ''127.0.0.1'', ''.local'', ''test.'', ''staging.'', ''dev.'']"

definition is_suspicious :: "string \<Rightarrow> bool" where
  "is_suspicious clean_url =
     list_ex (\<lambda>pattern. re_search_ignorecase pattern clean_url) suspicious_patterns"

text \<open>The issues that a retained URL adds, in the order the loop body appends them.\<close>

definition quality_issues :: "string \<Rightarrow> issue list" where
  "quality_issues clean_url =
     (if length clean_url > 200 then [VeryLong (length clean_url) (take 50 clean_url)] else [])
     @ (if is_suspicious clean_url then [Suspicious (take 50 clean_url)] else [])"

text \<open>
  The loop of \<^verbatim>\<open>_validate_and_clean_urls\<close> from position \<open>i\<close> on, returning
  \<^verbatim>\<open>valid_urls\<close> and \<^verbatim>\<open>issues_found\<close>; an exception of \<^verbatim>\<open>urlparse\<close> leaves the loop
  and the function, since nothing catches it.
\<close>

fun validate_loop :: "nat \<Rightarrow> string list \<Rightarrow> exn + (string list \<times> issue list)" where
  "validate_loop i [] = Inr ([], [])"
| "validate_loop i (url # urls) =
     (let clean_url = strip url in
      if clean_url = [] then
        (case validate_loop (i + 1) urls of
           Inl e \<Rightarrow> Inl e
         | Inr (valid_urls, issues_found) \<Rightarrow> Inr (valid_urls, EmptyUrl (i + 1) # issues_found))
      else
        (case urlparse clean_url of
           Inl e \<Rightarrow> Inl e
         | Inr parsed \<Rightarrow>
             if scheme parsed = [] \<or> netloc parsed = [] then
               (case validate_loop (i + 1) urls of
                  Inl e \<Rightarrow> Inl e
                | Inr (valid_urls, issues_found) \<Rightarrow>
                    Inr (valid_urls, InvalidFormat (take 50 clean_url) # issues_found))
             else
               (case validate_loop (i + 1) urls of
                  Inl e \<Rightarrow> Inl e
                | Inr (valid_urls, issues_found) \<Rightarrow>
                    Inr (clean_url # valid_urls, quality_issues clean_url @ issues_found))))"

definition validate_and_report :: "string list \<Rightarrow> exn + (string list \<times> issue list)" where
  "validate_and_report urls = validate_loop 0 urls"

definition validate_and_clean_urls :: "string list \<Rightarrow> exn + string list" where
  "validate_and_clean_urls urls =
     (case validate_and_report urls of Inl e \<Rightarrow> Inl e | Inr (valid_urls, _) \<Rightarrow> Inr valid_urls)"

text \<open>
  The data model's invariant of a URL, in the words of the specification: not empty after
  trimming, and parsing with a scheme and a host. It is what the validator is compared with.
\<close>

definition well_formed :: "string \<Rightarrow> bool" where
  "well_formed s =
     (s \<noteq> [] \<and>
      (case urlparse s of Inl _ \<Rightarrow> False | Inr p \<Rightarrow> scheme p \<noteq> [] \<and> netloc p \<noteq> []))"

text \<open>The loop of \<^verbatim>\<open>_deduplicate_urls\<close> with its set \<^verbatim>\<open>seen\<close>.\<close>

fun dedup_loop :: "string set \<Rightarrow> string list \<Rightarrow> string list" where
  "dedup_loop seen [] = []"
| "dedup_loop seen (url # urls) =
     (if url \<notin> seen then url # dedup_loop (insert url seen) urls else dedup_loop seen urls)"

definition deduplicate_urls :: "string list \<Rightarrow> string list" where
  "deduplicate_urls all_urls = dedup_loop {} all_urls"

text \<open>\<^verbatim>\<open>sum(len(url) for url in final_urls)\<close>\<close>

definition total_chars :: "string list \<Rightarrow> nat" where
  "total_chars final_urls = sum_list (map length final_urls)"

text \<open>The decimal text of a number, as an f-string prints an \<^verbatim>\<open>int\<close>.\<close>

fun str_nat :: "nat \<Rightarrow> string" where
  "str_nat n =
     (if n < 10 then [char_of (48 + n)]
      else str_nat (n div 10) @ [char_of (48 + n mod 10)])"

declare str_nat.simps [simp del]

subsection \<open>The fixture directories\<close>

text \<open>
  A JSON file of a fixture directory, as \<^verbatim>\<open>_load_catalogue_urls\<close> sees it: a dictionary
  whose \<^verbatim>\<open>urls\<close> entry is a list (of strings), a dictionary whose \<^verbatim>\<open>urls\<close> entry is
  something else, a document with no \<^verbatim>\<open>urls\<close> entry, or a file that cannot be opened or
  parsed. A directory is the list of its entries; the file system gives the directory at a
  path, \<open>None\<close> when \<^verbatim>\<open>os.path.exists\<close> is false.
\<close>

datatype json_doc = UrlsDoc "string list" | UrlsNotList | NoUrlsField | Unreadable

type_synonym directory = "(string \<times> json_doc) list"

type_synonym filesystem = "string \<Rightarrow> directory option"

definition load_catalogue_urls :: "filesystem \<Rightarrow> string \<Rightarrow> string list" where
  "load_catalogue_urls files directory_path =
     (case files directory_path of
        None \<Rightarrow> []
      | Some entries \<Rightarrow>
          (let json_files =
                 sort (filter (\<lambda>f. endswith f ''.json'' \<and> f \<noteq> ''catalogue_info.json'')
                         (map fst entries))
           in concat (map (\<lambda>json_file.
                            case map_of entries json_file of
                              Some (UrlsDoc urls) \<Rightarrow> urls
                            | _ \<Rightarrow> [])
                       json_files)))"

definition ai_kb_fixtures_dir :: "string \<Rightarrow> string" where
  "ai_kb_fixtures_dir catalogue_name = ''fixtures/ai_kb/'' @ catalogue_name"

definition base_fixtures_dir :: string where
  "base_fixtures_dir = ''fixtures/ai_kb/base''"

text \<open>
  The list \<^verbatim>\<open>all_urls\<close> that \<^verbatim>\<open>load_catalogue\<close> (lines 70 to 79) and
  \<^verbatim>\<open>_create_catalogue_data_source\<close> (lines 370 to 377) both build with the same statements:
  the base URLs first, when the base directory exists and the catalogue is not \<^verbatim>\<open>base\<close>,
  then the catalogue's own.
\<close>

definition gather_all_urls :: "filesystem \<Rightarrow> string \<Rightarrow> string list" where
  "gather_all_urls files catalogue_name =
     (if files base_fixtures_dir \<noteq> None \<and> catalogue_name \<noteq> ''base''
      then load_catalogue_urls files base_fixtures_dir else [])
     @ load_catalogue_urls files (ai_kb_fixtures_dir catalogue_name)"

subsection \<open>The remote ingestion service\<close>

record crawler_configuration =
  rateLimit :: nat
  inclusionFilters :: "string list"

text \<open>
  \<open>urlConfiguration\<close> is \<open>None\<close> when the path
  \<^verbatim>\<open>['sourceConfiguration']['urlConfiguration']\<close> is missing (the assignment of the seed URLs
  then raises \<^verbatim>\<open>KeyError\<close>); otherwise it holds the seed URLs, each \<^verbatim>\<open>{'url': u}\<close> as \<open>u\<close>.
\<close>

record web_configuration =
  urlConfiguration :: "string list option"
  crawlerConfiguration :: "crawler_configuration option"

record data_source_configuration =
  cfg_type :: "string option"
  webConfiguration :: "web_configuration option"

record data_source_summary =
  summary_id :: string
  summary_name :: "string option"

record data_source =
  ds_name :: "string option"
  ds_description :: "string option"
  dataSourceConfiguration :: data_source_configuration

record create_request =
  create_name :: string
  create_description :: string
  create_configuration :: data_source_configuration
  create_modelArn :: string

record update_request =
  update_id :: string
  update_name :: string
  update_description :: string
  update_configuration :: data_source_configuration

record ingestion_job =
  status :: string
  failureReasons :: "string list"

datatype remote_call =
    ListDataSources
  | GetDataSource string
  | CreateDataSource create_request
  | UpdateDataSource update_request
  | StartIngestionJob string
  | GetIngestionJob string string

fun is_mutation :: "remote_call \<Rightarrow> bool" where
  "is_mutation (CreateDataSource _) = True"
| "is_mutation (UpdateDataSource _) = True"
| "is_mutation (StartIngestionJob _) = True"
| "is_mutation _ = False"

text \<open>
  The environment of one run. The service answers each call with a result or an exception;
  its answer may depend on the request and on how many calls the run has made before (the
  first argument), so that a repeated request can be answered differently. A status query
  also takes some seconds. \<open>loaddata\<close> is the outcome of
  \<^verbatim>\<open>call_command('loaddata', path)\<close>. The knowledge-base identifier, a constant of the run
  that every call carries, is left out.
\<close>

record env =
  files :: filesystem
  list_data_sources :: "nat \<Rightarrow> exn + data_source_summary list"
  get_data_source :: "nat \<Rightarrow> string \<Rightarrow> exn + data_source"
  create_data_source :: "nat \<Rightarrow> create_request \<Rightarrow> exn + string"
  update_data_source :: "nat \<Rightarrow> update_request \<Rightarrow> exn + unit"
  start_ingestion_job :: "nat \<Rightarrow> string \<Rightarrow> exn + string"
  get_ingestion_job :: "nat \<Rightarrow> string \<Rightarrow> string \<Rightarrow> nat \<times> (exn + ingestion_job)"
  loaddata :: "string \<Rightarrow> exn option"
  bedrock_model_id :: string
  region_name :: string

subsection \<open>The state of a run\<close>

datatype signal = pre_save | post_save | post_delete

datatype handler = pre_save_handler | post_save_handler | post_delete_handler

text \<open>
  The lines a run prints that tell its paths apart; the progress lines and reminders are
  not modelled.
\<close>

datatype message =
    CatalogueDirNotFound
  | ValidationReport "issue list"
  | LimitWarning nat
  | NoUrlsFound
  | IngestionFailedOrTimedOut
  | IngestionCompleted
  | IngestionFailed "string list"
  | StatusElapsed string nat
  | StatusLine string
  | ErrorCheckingStatus string
  | TimeoutLine nat
  | ErrorListing string
  | ErrorGetOrCreate string
  | ErrorCreating string
  | LargeUrlCount nat
  | LimitError nat
  | UpdatedOk
  | TryingWithoutVector
  | UpdatedWithoutVector
  | StillFailed string
  | ErrorUpdating string
  | ErrorStartingJob string
  | ErrorLoadingFixtures string string
  | Configured

text \<open>
  \<open>calls\<close> are the service calls made so far, oldest first; \<open>printed\<close> the lines printed;
  \<open>clock\<close> is \<^verbatim>\<open>time.time()\<close> in whole seconds; \<open>connected\<close> holds the receivers of the
  model signals; \<open>loaded\<close> the fixture paths given to \<^verbatim>\<open>loaddata\<close>.
\<close>

record world =
  calls :: "remote_call list"
  printed :: "message list"
  clock :: nat
  connected :: "(signal \<times> handler) set"
  loaded :: "string list"

definition print :: "message \<Rightarrow> world \<Rightarrow> world" where
  "print m w = w\<lparr>printed := printed w @ [m]\<rparr>"

definition invoke :: "remote_call \<Rightarrow> world \<Rightarrow> world" where
  "invoke c w = w\<lparr>calls := calls w @ [c]\<rparr>"

definition sleep :: "nat \<Rightarrow> world \<Rightarrow> world" where
  "sleep secs w = w\<lparr>clock := clock w + secs\<rparr>"

definition connect :: "signal \<Rightarrow> handler \<Rightarrow> world \<Rightarrow> world" where
  "connect s h w = w\<lparr>connected := insert (s, h) (connected w)\<rparr>"

definition disconnect :: "signal \<Rightarrow> handler \<Rightarrow> world \<Rightarrow> world" where
  "disconnect s h w = w\<lparr>connected := connected w - {(s, h)}\<rparr>"

fun str_exn :: "exn \<Rightarrow> string" where
  "str_exn (Exception m) = m"

subsection \<open>Resolving the data source\<close>

definition find_data_source_by_name ::
  "env \<Rightarrow> string \<Rightarrow> world \<Rightarrow> data_source_summary option \<times> world" where
  "find_data_source_by_name e data_source_name w =
     (case list_data_sources e (length (calls w)) of
        Inl err \<Rightarrow> (None, print (ErrorListing (str_exn err)) (invoke ListDataSources w))
      | Inr summaries \<Rightarrow>
          (List.find (\<lambda>d. summary_name d = Some data_source_name) summaries,
           invoke ListDataSources w))"

definition new_data_source_request :: "env \<Rightarrow> string \<Rightarrow> string list \<Rightarrow> create_request" where
  "new_data_source_request e catalogue_name final_urls =
     \<lparr>create_name = ''fixtures-'' @ catalogue_name @ ''-kb-source'',
      create_description = ''Fixture-managed data source for '' @ catalogue_name
         @ '' catalogue with Claude parser'',
      create_configuration =
        \<lparr>cfg_type = Some ''WEB'',
         webConfiguration = Some
           \<lparr>urlConfiguration = Some final_urls,
            crawlerConfiguration = Some \<lparr>rateLimit = 300, inclusionFilters = [''.*'']\<rparr>\<rparr>\<rparr>,
      create_modelArn = ''arn:aws:bedrock:''
         @ (if region_name e = [] then ''ca-central-1'' else region_name e)
         @ ''::foundation-model/'' @ bedrock_model_id e\<rparr>"

definition create_catalogue_data_source ::
  "env \<Rightarrow> string \<Rightarrow> world \<Rightarrow> (exn + string) \<times> world" where
  "create_catalogue_data_source e catalogue_name w =
     (let all_urls = gather_all_urls (files e) catalogue_name in
      case validate_and_report all_urls of
        Inl err \<Rightarrow> (Inl err, print (ErrorCreating (str_exn err)) w)
      | Inr (validated_urls, issues) \<Rightarrow>
          (let w1 = print (ValidationReport issues) w;
               final_urls = deduplicate_urls validated_urls;
               w2 = (if length final_urls > 50
                     then print (LargeUrlCount (length final_urls)) w1 else w1);
               total = total_chars final_urls
           in if total > 3000 then
                (let err = Exception (''URL character limit exceeded: '' @ str_nat total
                              @ '' > 3000'')
                 in (Inl err, print (ErrorCreating (str_exn err)) (print (LimitError total) w2)))
              else
                (let request = new_data_source_request e catalogue_name final_urls;
                     w3 = invoke (CreateDataSource request) w2
                 in case create_data_source e (length (calls w2)) request of
                      Inl err \<Rightarrow> (Inl err, print (ErrorCreating (str_exn err)) w3)
                    | Inr data_source_id \<Rightarrow> (Inr data_source_id, w3))))"

definition get_or_create_catalogue_data_source ::
  "env \<Rightarrow> string \<Rightarrow> world \<Rightarrow> (exn + string) \<times> world" where
  "get_or_create_catalogue_data_source e catalogue_name w =
     (let data_source_name = ''fixtures-'' @ catalogue_name @ ''-kb-source'';
          (existing_data_source, w1) = find_data_source_by_name e data_source_name w
      in case existing_data_source of
           Some d \<Rightarrow> (Inr (summary_id d), w1)
         | None \<Rightarrow>
             (case create_catalogue_data_source e catalogue_name w1 of
                (Inl err, w2) \<Rightarrow> (Inl err, print (ErrorGetOrCreate (str_exn err)) w2)
              | (Inr data_source_id, w2) \<Rightarrow> (Inr data_source_id, w2)))"

subsection \<open>Replacing the seed URLs\<close>

text \<open>
  \<^verbatim>\<open>_update_data_source_urls\<close> returns nothing and raises nothing: its outer handler
  catches every exception. Both calls of \<^verbatim>\<open>update_data_source\<close> are written with the same
  arguments, so one request value serves both.
\<close>

definition update_data_source_urls ::
  "env \<Rightarrow> string \<Rightarrow> string \<Rightarrow> string list \<Rightarrow> world \<Rightarrow> world" where
  "update_data_source_urls e catalogue_name data_source_id urls w =
     (let w1 = invoke (GetDataSource data_source_id) w in
      case get_data_source e (length (calls w)) data_source_id of
        Inl err \<Rightarrow> print (ErrorUpdating (str_exn err)) w1
      | Inr current_ds \<Rightarrow>
          (let current_config = dataSourceConfiguration current_ds;
               current_name = (case ds_name current_ds of
                                 Some n \<Rightarrow> n
                               | None \<Rightarrow> ''fixtures-'' @ catalogue_name @ ''-kb-source'');
               current_description = (case ds_description current_ds of
                                        Some d \<Rightarrow> d
                                      | None \<Rightarrow> ''Catalogue-specific data source'')
           in case (if cfg_type current_config = Some ''WEB''
                    then webConfiguration current_config else None) of
                None \<Rightarrow>
                  print (ErrorUpdating (''Data source is not a web crawler (type: ''
                     @ (case cfg_type current_config of Some t \<Rightarrow> t | None \<Rightarrow> ''None'')
                     @ '')'')) w1
              | Some web \<Rightarrow>
                  (case urlConfiguration web of
                     None \<Rightarrow> print (ErrorUpdating ''sourceConfiguration'') w1
                   | Some _ \<Rightarrow>
                       (let request =
                              \<lparr>update_id = data_source_id,
                               update_name = current_name,
                               update_description = current_description @ '' - Updated ''
                                  @ catalogue_name @ '' URLs'',
                               update_configuration = current_config
                                  \<lparr>webConfiguration :=
                                      Some (web\<lparr>urlConfiguration := Some urls\<rparr>)\<rparr>\<rparr>;
                            w2 = invoke (UpdateDataSource request) w1
                        in case update_data_source e (length (calls w1)) request of
                             Inr _ \<Rightarrow> print UpdatedOk w2
                           | Inl update_error \<Rightarrow>
                               if contains (str_exn update_error) ''vectorIngestionConfiguration''
                               then
                                 (let w3 = invoke (UpdateDataSource request)
                                             (print TryingWithoutVector w2)
                                  in case update_data_source e (length (calls w2)) request of
                                       Inr _ \<Rightarrow> print UpdatedWithoutVector w3
                                     | Inl second_error \<Rightarrow>
                                         print (StillFailed (str_exn second_error)) w3)
                               else print (ErrorUpdating (str_exn update_error)) w2))))"

text \<open>The seed URLs an update request carries, \<open>None\<close> when it has no URL configuration.\<close>

definition request_seed_urls :: "update_request \<Rightarrow> string list option" where
  "request_seed_urls request =
     (case webConfiguration (update_configuration request) of
        None \<Rightarrow> None
      | Some web \<Rightarrow> urlConfiguration web)"

subsection \<open>Starting and awaiting the ingestion job\<close>

definition start_job :: "env \<Rightarrow> string \<Rightarrow> world \<Rightarrow> (exn + string) \<times> world" where
  "start_job e data_source_id w =
     (let w1 = invoke (StartIngestionJob data_source_id) w in
      case start_ingestion_job e (length (calls w)) data_source_id of
        Inl err \<Rightarrow> (Inl err, print (ErrorStartingJob (str_exn err)) w1)
      | Inr job_id \<Rightarrow> (Inr job_id, w1))"

text \<open>
  The \<^verbatim>\<open>while\<close> loop of \<^verbatim>\<open>_wait_for_ingestion_completion\<close>. The condition reads the clock;
  a status query takes the seconds the environment gives; \<^verbatim>\<open>time.sleep(30)\<close> moves the
  clock by 30.
\<close>

function wait_loop ::
  "env \<Rightarrow> string \<Rightarrow> string \<Rightarrow> nat \<Rightarrow> nat \<Rightarrow> world \<Rightarrow> bool \<times> world" where
  "wait_loop e data_source_id job_id start_time timeout_minutes w =
     (if int (clock w) - int start_time < int (timeout_minutes * 60) then
        (case get_ingestion_job e (length (calls w)) data_source_id job_id of
           (took, response) \<Rightarrow>
             (let w1 = sleep took (invoke (GetIngestionJob data_source_id job_id) w)
              in case response of
                   Inl err \<Rightarrow>
                     wait_loop e data_source_id job_id start_time timeout_minutes
                       (sleep 30 (print (ErrorCheckingStatus (str_exn err)) w1))
                 | Inr job \<Rightarrow>
                     if status job = ''COMPLETE'' then (True, print IngestionCompleted w1)
                     else if status job = ''FAILED''
                       then (False, print (IngestionFailed (failureReasons job)) w1)
                     else if status job = ''IN_PROGRESS'' \<or> status job = ''STARTING''
                       then wait_loop e data_source_id job_id start_time timeout_minutes
                              (sleep 30 (print (StatusElapsed (status job)
                                 (clock w1 - start_time)) w1))
                     else wait_loop e data_source_id job_id start_time timeout_minutes
                            (sleep 30 (print (StatusLine (status job)) w1))))
      else (False, print (TimeoutLine timeout_minutes) w))"
  by pat_completeness auto
termination
  by (relation "measure (\<lambda>(e, d, j, start_time, timeout_minutes, w).
        nat (int (timeout_minutes * 60) - (int (clock w) - int start_time)))")
     (auto simp: sleep_def print_def invoke_def)

declare wait_loop.simps [simp del]

definition wait_for_ingestion_completion ::
  "env \<Rightarrow> string \<Rightarrow> string \<Rightarrow> nat \<Rightarrow> world \<Rightarrow> bool \<times> world" where
  "wait_for_ingestion_completion e data_source_id job_id timeout_minutes w =
     wait_loop e data_source_id job_id (clock w) timeout_minutes w"

subsection \<open>Loading the relational fixtures\<close>

fun loaddata_all :: "env \<Rightarrow> string \<Rightarrow> string list \<Rightarrow> world \<Rightarrow> exn option \<times> world" where
  "loaddata_all e directory [] w = (None, w)"
| "loaddata_all e directory (fixture_file # rest) w =
     (let path = directory @ ''/'' @ fixture_file;
          w1 = w\<lparr>loaded := loaded w @ [path]\<rparr>
      in case loaddata e path of
           Some err \<Rightarrow> (Some err, w1)
         | None \<Rightarrow> loaddata_all e directory rest w1)"

definition disconnect_audit :: "world \<Rightarrow> world" where
  "disconnect_audit w =
     disconnect post_delete post_delete_handler
       (disconnect post_save post_save_handler
          (disconnect pre_save pre_save_handler w))"

definition connect_audit :: "world \<Rightarrow> world" where
  "connect_audit w =
     connect post_delete post_delete_handler
       (connect post_save post_save_handler
          (connect pre_save pre_save_handler w))"

definition load_django_fixtures_from_dir ::
  "env \<Rightarrow> string \<Rightarrow> string \<Rightarrow> world \<Rightarrow> world" where
  "load_django_fixtures_from_dir e directory dir_name w =
     (case files e directory of
        None \<Rightarrow> print (ErrorLoadingFixtures dir_name ''No such file or directory'') w
      | Some entries \<Rightarrow>
          (let django_fixtures =
                 filter (\<lambda>f. endswith f ''.json'' \<and> startswith f ''django_'') (map fst entries)
           in if django_fixtures \<noteq> [] then
                (case loaddata_all e directory (sort django_fixtures) (disconnect_audit w) of
                   (None, w1) \<Rightarrow> connect_audit w1
                 | (Some err, w1) \<Rightarrow>
                     print (ErrorLoadingFixtures dir_name (str_exn err)) (connect_audit w1))
              else w))"

text \<open>
  \<^verbatim>\<open>_update_compliance_framework\<close>, which ends \<^verbatim>\<open>_load_django_fixtures\<close>, writes to the
  relational store only and catches its own exceptions; the world holds nothing it changes.
\<close>

definition load_django_fixtures :: "env \<Rightarrow> string \<Rightarrow> world \<Rightarrow> world" where
  "load_django_fixtures e catalogue_name w =
     (let w1 = (if files e base_fixtures_dir \<noteq> None \<and> catalogue_name \<noteq> ''base''
                then load_django_fixtures_from_dir e base_fixtures_dir ''base'' w else w)
      in load_django_fixtures_from_dir e (ai_kb_fixtures_dir catalogue_name) catalogue_name w1)"

subsection \<open>\<^verbatim>\<open>load_catalogue\<close>\<close>

definition load_catalogue :: "env \<Rightarrow> string \<Rightarrow> world \<Rightarrow> (exn + bool) \<times> world" where
  "load_catalogue e catalogue_name w =
     (if files e (ai_kb_fixtures_dir catalogue_name) = None
      then (Inr False, print CatalogueDirNotFound w)
      else
        (case get_or_create_catalogue_data_source e catalogue_name w of
           (Inl err, w1) \<Rightarrow> (Inl err, w1)
         | (Inr data_source_id, w1) \<Rightarrow>
             (let all_urls = gather_all_urls (files e) catalogue_name in
              if all_urls \<noteq> [] then
                (case validate_and_report all_urls of
                   Inl err \<Rightarrow> (Inl err, w1)
                 | Inr (validated_urls, issues) \<Rightarrow>
                     (let w2 = print (ValidationReport issues) w1;
                          final_urls = deduplicate_urls validated_urls;
                          total = total_chars final_urls
                      in if total > 3000 then (Inr False, print (LimitWarning total) w2)
                         else
                           (let w3 = update_data_source_urls e catalogue_name data_source_id
                                       final_urls w2
                            in case start_job e data_source_id w3 of
                                 (Inl err, w4) \<Rightarrow> (Inl err, w4)
                               | (Inr job_id, w4) \<Rightarrow>
                                   (case wait_for_ingestion_completion e data_source_id job_id
                                           20 w4 of
                                      (True, w5) \<Rightarrow>
                                        (Inr True,
                                         print Configured (load_django_fixtures e catalogue_name w5))
                                    | (False, w5) \<Rightarrow>
                                        (Inr False, print IngestionFailedOrTimedOut w5)))))
              else (Inr False, print NoUrlsFound w1))))"

section \<open>The bulk loader of \<^verbatim>\<open>loaders/loadAllFixtures.py\<close>\<close>

definition fixtures_dir :: string where
  "fixtures_dir = ''fixtures''"

definition skip_fixtures :: "string list" where
  "skip_fixtures =
     [''blueprint'', ''colors'', ''permissions'', ''ato_status_choices'', ''months'',
      ''risk_level_choices'', ''controlset_types'', ''audittrail'', ''widgets'',
      ''support_case_request_types'']"

text \<open>
  \<^verbatim>\<open>load_fixtures\<close>: the signals are disconnected, the \<^verbatim>\<open>try\<close> block lists the directory
  and loads each file, and the \<^verbatim>\<open>finally\<close> block reconnects before an exception, if any,
  goes on to the caller.
\<close>

definition load_fixtures :: "env \<Rightarrow> world \<Rightarrow> exn option \<times> world" where
  "load_fixtures e w =
     (let w1 = disconnect_audit w;
          (raised, w2) =
            (case files e fixtures_dir of
               None \<Rightarrow> (Some (Exception ''No such file or directory''), w1)
             | Some entries \<Rightarrow>
                 (let fixture_files =
                        filter (\<lambda>f. endswith f ''.json''
                                  \<and> takeWhile (\<lambda>c. c \<noteq> CHR ''.'') f \<notin> set skip_fixtures)
                          (map fst entries)
                  in loaddata_all e fixtures_dir (sort fixture_files) w1))
      in (raised, connect_audit w2))"

section \<open>Example environments\<close>

text \<open>
  A base directory and the directory of a catalogue \<^verbatim>\<open>nist\<close>, each with one URL file.
\<close>

definition example_files :: filesystem where
  "example_files p =
     (if p = ''fixtures/ai_kb/base''
        then Some [(''urls.json'', UrlsDoc [''https://a.example/x'', '' https://b.example/y''])]
      else if p = ''fixtures/ai_kb/nist''
        then Some [(''urls.json'', UrlsDoc [''https://b.example/y'', ''nope'', ''https://c.example/'']),
                   (''catalogue_info.json'', NoUrlsField)]
      else None)"

text \<open>The three receivers of the audit trail, each on its signal.\<close>

definition audit_receivers :: "(signal \<times> handler) set" where
  "audit_receivers =
     {(pre_save, pre_save_handler), (post_save, post_save_handler),
      (post_delete, post_delete_handler)}"

text \<open>
  A service that knows the data source of \<^verbatim>\<open>nist\<close>, accepts every request, and reports the
  job complete at the first query; no fixture fails to load.
\<close>

definition example_source :: data_source where
  "example_source =
     \<lparr>ds_name = Some ''fixtures-nist-kb-source'',
      ds_description = Some ''Seeded'',
      dataSourceConfiguration =
        \<lparr>cfg_type = Some ''WEB'',
         webConfiguration = Some
           \<lparr>urlConfiguration = Some [''https://old.example/''],
            crawlerConfiguration = Some \<lparr>rateLimit = 300, inclusionFilters = [''.*'']\<rparr>\<rparr>\<rparr>\<rparr>"

definition example_env :: env where
  "example_env =
     \<lparr>files = example_files,
      list_data_sources =
        (\<lambda>k. Inr [\<lparr>summary_id = ''ds-1'', summary_name = Some ''fixtures-nist-kb-source''\<rparr>]),
      get_data_source = (\<lambda>k i. Inr example_source),
      create_data_source = (\<lambda>k r. Inr ''ds-2''),
      update_data_source = (\<lambda>k r. Inr ()),
      start_ingestion_job = (\<lambda>k i. Inr ''job-1''),
      get_ingestion_job = (\<lambda>k i j. (1, Inr \<lparr>status = ''COMPLETE'', failureReasons = []\<rparr>)),
      loaddata = (\<lambda>p. None),
      bedrock_model_id = ''model'',
      region_name = ''''\<rparr>"

definition initial_world :: world where
  "initial_world =
     \<lparr>calls = [], printed = [], clock = 1000, connected = audit_receivers, loaded = []\<rparr>"

text \<open>Directories with relational fixtures, and a loader that fails on one of them.\<close>

definition fixture_files :: filesystem where
  "fixture_files p =
     (if p = ''fixtures'' then Some [(''users.json'', NoUrlsField)]
      else if p = ''fixtures/ai_kb/nist'' then Some [(''django_controls.json'', NoUrlsField)]
      else None)"

definition failing_fixture_env :: env where
  "failing_fixture_env =
     example_env\<lparr>files := fixture_files, loaddata := (\<lambda>p. Some (Exception ''bad fixture''))\<rparr>"

text \<open>A catalogue whose single URL has 3018 characters.\<close>

definition long_url :: string where
  "long_url = ''https://a.example/'' @ replicate 3000 (CHR ''x'')"

definition over_budget_files :: filesystem where
  "over_budget_files p =
     (if p = ''fixtures/ai_kb/nist'' then Some [(''urls.json'', UrlsDoc [long_url])] else None)"

definition over_budget_env :: env where
  "over_budget_env = example_env\<lparr>files := over_budget_files\<rparr>"

text \<open>The same service when listing the data sources fails.\<close>

definition listing_fails_env :: env where
  "listing_fails_env = example_env\<lparr>list_data_sources := (\<lambda>k. Inl (Exception ''network down''))\<rparr>"

text \<open>A catalogue whose URL file holds nothing that passes validation.\<close>

definition rejected_files :: filesystem where
  "rejected_files p =
     (if p = ''fixtures/ai_kb/nist'' then Some [(''urls.json'', UrlsDoc [''nope'', '' ''])]
      else None)"

definition rejected_env :: env where
  "rejected_env = example_env\<lparr>files := rejected_files\<rparr>"

text \<open>
  A data source of another type under the catalogue's name, and a service that rejects
  every update with a message about the vector ingestion configuration.
\<close>

definition s3_source :: data_source where
  "s3_source =
     \<lparr>ds_name = Some ''fixtures-nist-kb-source'',
      ds_description = Some ''Seeded'',
      dataSourceConfiguration = \<lparr>cfg_type = Some ''S3'', webConfiguration = None\<rparr>\<rparr>"

definition s3_source_env :: env where
  "s3_source_env = example_env\<lparr>get_data_source := (\<lambda>k i. Inr s3_source)\<rparr>"

definition vector_rejecting_env :: env where
  "vector_rejecting_env =
     example_env\<lparr>update_data_source :=
       (\<lambda>k r. Inl (Exception ''vectorIngestionConfiguration cannot be changed''))\<rparr>"

text \<open>The request that both update calls of the example carry.\<close>

definition example_update_request :: update_request where
  "example_update_request =
     \<lparr>update_id = ''ds-1'',
      update_name = ''fixtures-nist-kb-source'',
      update_description = ''Seeded - Updated nist URLs'',
      update_configuration =
        \<lparr>cfg_type = Some ''WEB'',
         webConfiguration = Some
           \<lparr>urlConfiguration = Some [''https://a.example/x''],
            crawlerConfiguration = Some \<lparr>rateLimit = 300, inclusionFilters = [''.*'']\<rparr>\<rparr>\<rparr>\<rparr>"

text \<open>A job that stays in progress, and a job that has failed at the first query.\<close>

definition never_done_env :: env where
  "never_done_env =
     example_env\<lparr>get_ingestion_job :=
       (\<lambda>k i j. (1, Inr \<lparr>status = ''IN_PROGRESS'', failureReasons = []\<rparr>))\<rparr>"

definition failed_env :: env where
  "failed_env =
     example_env\<lparr>get_ingestion_job :=
       (\<lambda>k i j. (1, Inr \<lparr>status = ''FAILED'', failureReasons = [''crawl error'']\<rparr>))\<rparr>"

section \<open>Properties\<close>

lemma strip_simple [simp]: "strip [] = []"
  by (simp add: strip_def)

text \<open>
  Claim C7: for the list \<^verbatim>\<open>["https://a.example/x", "https://a.example/x", "not-a-url", ""]\<close>,
  validation followed by deduplication yields exactly \<^verbatim>\<open>["https://a.example/x"]\<close>.
\<close>

theorem validate_dedup_example:
  "map_sum id deduplicate_urls
     (validate_and_clean_urls
        [''https://a.example/x'', ''https://a.example/x'', ''not-a-url'', ''''])
   = Inr [''https://a.example/x'']"
  by (simp add: validate_and_clean_urls_def validate_and_report_def strip_def isspace_def
      urlparse_def split_scheme_def is_ascii_alpha_def is_scheme_char_def is_c0_or_space_def
      is_unsafe_byte_def is_netloc_delim_def lower_def lower_char_def deduplicate_urls_def
      Let_def)

lemma dedup_loop_set: "set (dedup_loop seen xs) = set xs - seen"
  by (induction xs arbitrary: seen) auto

lemma dedup_loop_distinct: "distinct (dedup_loop seen xs)"
  by (induction xs arbitrary: seen) (auto simp: dedup_loop_set)

lemma dedup_loop_first:
  "dedup_loop seen xs =
     map (\<lambda>i. xs ! i) (filter (\<lambda>i. xs ! i \<notin> seen \<union> set (take i xs)) [0..<length xs])"
proof (induction xs arbitrary: seen)
  case Nil
  then show ?case by simp
next
  case (Cons x xs)
  have upt: "[0..<length (x # xs)] = 0 # map Suc [0..<length xs]"
    by (simp add: upt_conv_Cons map_Suc_upt del: upt_Suc)
  show ?case
    unfolding upt
    by (auto simp: Cons.IH filter_map comp_def intro!: arg_cong[where f="map ((!) xs)"] filter_cong)
qed

lemma validate_loop_valid:
  "validate_loop i urls = Inr (valid_urls, issues) \<Longrightarrow>
     valid_urls = filter well_formed (map strip urls)"
  by (induction urls arbitrary: i valid_urls issues)
     (auto simp: Let_def well_formed_def split: if_splits sum.splits prod.splits)

lemma validate_and_clean_urls_valid:
  "validate_and_clean_urls urls = Inr valid_urls \<Longrightarrow>
     valid_urls = filter well_formed (map strip urls)"
  by (auto simp: validate_and_clean_urls_def validate_and_report_def
      split: sum.splits prod.splits dest: validate_loop_valid)

text \<open>
  Claim C5: when the base directory exists and the catalogue is not \<^verbatim>\<open>base\<close>, the list
  that is validated is the base URLs followed by the catalogue's own; the final list, the
  deduplication of the validated list, has no duplicates, holds the same URLs, and is the
  validated list restricted to the positions where a URL occurs for the first time, in
  their order.
\<close>

theorem reconciled_urls_first_seen:
  assumes "fs base_fixtures_dir \<noteq> None"
    and "catalogue_name \<noteq> ''base''"
    and "validate_and_clean_urls (gather_all_urls fs catalogue_name) = Inr validated_urls"
  shows "gather_all_urls fs catalogue_name =
           load_catalogue_urls fs base_fixtures_dir
           @ load_catalogue_urls fs (ai_kb_fixtures_dir catalogue_name)
       \<and> validated_urls = filter well_formed (map strip (gather_all_urls fs catalogue_name))
       \<and> distinct (deduplicate_urls validated_urls)
       \<and> set (deduplicate_urls validated_urls) = set validated_urls
       \<and> deduplicate_urls validated_urls =
           map (\<lambda>i. validated_urls ! i)
             (filter (\<lambda>i. validated_urls ! i \<notin> set (take i validated_urls))
                [0..<length validated_urls])"
proof -
  have concat: "gather_all_urls fs catalogue_name =
      load_catalogue_urls fs base_fixtures_dir
      @ load_catalogue_urls fs (ai_kb_fixtures_dir catalogue_name)"
    using assms(1,2) by (simp add: gather_all_urls_def)
  have valid: "validated_urls = filter well_formed (map strip (gather_all_urls fs catalogue_name))"
    using assms(3) by (rule validate_and_clean_urls_valid)
  have dist: "distinct (deduplicate_urls validated_urls)"
    by (simp add: deduplicate_urls_def dedup_loop_distinct)
  have same: "set (deduplicate_urls validated_urls) = set validated_urls"
    by (simp add: deduplicate_urls_def dedup_loop_set)
  have first: "deduplicate_urls validated_urls =
      map (\<lambda>i. validated_urls ! i)
        (filter (\<lambda>i. validated_urls ! i \<notin> set (take i validated_urls))
           [0..<length validated_urls])"
    unfolding deduplicate_urls_def by (subst dedup_loop_first) simp
  from concat valid dist same first show ?thesis by blast
qed

lemma example_gather:
  "gather_all_urls example_files ''nist'' =
     [''https://a.example/x'', '' https://b.example/y'', ''https://b.example/y'', ''nope'',
      ''https://c.example/'']"
  by (simp add: gather_all_urls_def example_files_def load_catalogue_urls_def
      base_fixtures_dir_def ai_kb_fixtures_dir_def endswith_def)

lemma example_validated:
  "validate_and_clean_urls
     [''https://a.example/x'', '' https://b.example/y'', ''https://b.example/y'', ''nope'',
      ''https://c.example/'']
   = Inr [''https://a.example/x'', ''https://b.example/y'', ''https://b.example/y'',
      ''https://c.example/'']"
  by (simp add: validate_and_clean_urls_def validate_and_report_def strip_def isspace_def
      urlparse_def split_scheme_def is_ascii_alpha_def is_scheme_char_def is_c0_or_space_def
      is_unsafe_byte_def is_netloc_delim_def lower_def lower_char_def Let_def)

theorem reconciled_urls_first_seen_witness:
  "example_files base_fixtures_dir \<noteq> None \<and> ''nist'' \<noteq> ''base''
   \<and> gather_all_urls example_files ''nist'' =
       load_catalogue_urls example_files base_fixtures_dir
       @ load_catalogue_urls example_files (ai_kb_fixtures_dir ''nist'')
   \<and> deduplicate_urls
        [''https://a.example/x'', ''https://b.example/y'', ''https://b.example/y'',
         ''https://c.example/'']
      = [''https://a.example/x'', ''https://b.example/y'', ''https://c.example/'']
   \<and> distinct (deduplicate_urls
        [''https://a.example/x'', ''https://b.example/y'', ''https://b.example/y'',
         ''https://c.example/''])"
proof -
  have h1: "example_files base_fixtures_dir \<noteq> None"
    by (simp add: example_files_def base_fixtures_dir_def)
  have h2: "''nist'' \<noteq> ''base''" by simp
  have h3: "validate_and_clean_urls (gather_all_urls example_files ''nist'') =
      Inr [''https://a.example/x'', ''https://b.example/y'', ''https://b.example/y'',
        ''https://c.example/'']"
    by (simp only: example_gather example_validated)
  have d: "deduplicate_urls
        [''https://a.example/x'', ''https://b.example/y'', ''https://b.example/y'',
         ''https://c.example/'']
      = [''https://a.example/x'', ''https://b.example/y'', ''https://c.example/'']"
    by (simp add: deduplicate_urls_def)
  from reconciled_urls_first_seen [OF h1 h2 h3] h1 h2 d show ?thesis by simp
qed

lemma loaddata_all_connected:
  "connected (snd (loaddata_all e directory fs w)) = connected w"
  by (induction fs arbitrary: w) (auto simp: Let_def split: option.splits)

lemma connect_audit_connected: "connected (connect_audit w) = connected w \<union> audit_receivers"
  by (auto simp: connect_audit_def connect_def audit_receivers_def)

lemma from_dir_connected:
  "connected (load_django_fixtures_from_dir e directory dir_name w) = connected w
   \<or> audit_receivers \<subseteq> connected (load_django_fixtures_from_dir e directory dir_name w)"
proof (cases "files e directory")
  case None
  then show ?thesis by (simp add: load_django_fixtures_from_dir_def print_def)
next
  case (Some entries)
  let ?fx = "filter (\<lambda>f. endswith f ''.json'' \<and> startswith f ''django_'') (map fst entries)"
  show ?thesis
  proof (cases "?fx = []")
    case True
    with Some show ?thesis by (simp add: load_django_fixtures_from_dir_def)
  next
    case False
    obtain r w1 where run: "loaddata_all e directory (sort ?fx) (disconnect_audit w) = (r, w1)"
      by (cases "loaddata_all e directory (sort ?fx) (disconnect_audit w)")
    have "audit_receivers \<subseteq> connected (load_django_fixtures_from_dir e directory dir_name w)"
      using Some False run
      by (cases r) (simp_all add: load_django_fixtures_from_dir_def connect_audit_connected print_def)
    then show ?thesis ..
  qed
qed

lemma load_fixtures_connected:
  "audit_receivers \<subseteq> connected (snd (load_fixtures e w))"
  by (simp add: load_fixtures_def Let_def connect_audit_connected split: option.splits prod.splits)

text \<open>
  Claim C9: a bulk fixture load that starts with the audit receivers connected ends with
  them connected, whatever the directory holds and whichever fixture fails to load; this
  holds for \<^verbatim>\<open>_load_django_fixtures_from_dir\<close>, which swallows the exception, and for
  \<^verbatim>\<open>load_fixtures\<close>, which lets it go on to the caller.
\<close>

theorem audit_handlers_reconnected:
  assumes "audit_receivers \<subseteq> connected w"
  shows "audit_receivers \<subseteq> connected (load_django_fixtures_from_dir e directory dir_name w)
       \<and> audit_receivers \<subseteq> connected (snd (load_fixtures e w))"
  using assms from_dir_connected [of e directory dir_name w] load_fixtures_connected [of e w]
  by auto

theorem audit_handlers_reconnected_witness:
  "audit_receivers \<subseteq> connected initial_world
   \<and> printed (load_django_fixtures_from_dir failing_fixture_env ''fixtures/ai_kb/nist'' ''nist''
        initial_world) = [ErrorLoadingFixtures ''nist'' ''bad fixture'']
   \<and> audit_receivers \<subseteq> connected (load_django_fixtures_from_dir failing_fixture_env
        ''fixtures/ai_kb/nist'' ''nist'' initial_world)
   \<and> fst (load_fixtures failing_fixture_env initial_world) = Some (Exception ''bad fixture'')
   \<and> audit_receivers \<subseteq> connected (snd (load_fixtures failing_fixture_env initial_world))"
proof -
  have h: "audit_receivers \<subseteq> connected initial_world"
    by (simp add: initial_world_def)
  have p: "printed (load_django_fixtures_from_dir failing_fixture_env ''fixtures/ai_kb/nist''
        ''nist'' initial_world) = [ErrorLoadingFixtures ''nist'' ''bad fixture'']"
    by (simp add: load_django_fixtures_from_dir_def failing_fixture_env_def example_env_def
        fixture_files_def endswith_def initial_world_def print_def connect_audit_def
        connect_def disconnect_audit_def disconnect_def Let_def)
  have r: "fst (load_fixtures failing_fixture_env initial_world) = Some (Exception ''bad fixture'')"
    by (simp add: load_fixtures_def failing_fixture_env_def example_env_def fixtures_dir_def
        fixture_files_def endswith_def skip_fixtures_def Let_def)
  from audit_handlers_reconnected [OF h, of failing_fixture_env "''fixtures/ai_kb/nist''" "''nist''"]
    h p r show ?thesis by simp
qed


text \<open>
  Claim C6, at the input \<^verbatim>\<open>["http://[bad"]\<close>: the trimmed text is not empty, and
  \<^verbatim>\<open>urlparse\<close> raises on the unmatched bracket of its netloc; the validator has no handler
  around that call, so the exception leaves \<^verbatim>\<open>_validate_and_clean_urls\<close>.
\<close>

theorem validate_raises_on_unmatched_bracket:
  "validate_and_clean_urls [''http://[bad''] = Inl (Exception ''Invalid IPv6 URL'')"
  by (simp add: validate_and_clean_urls_def validate_and_report_def strip_def isspace_def
      urlparse_def split_scheme_def is_ascii_alpha_def is_scheme_char_def is_c0_or_space_def
      is_unsafe_byte_def is_netloc_delim_def lower_def lower_char_def Let_def)

lemma calls_print [simp]: "calls (print m w) = calls w"
  by (simp add: print_def)

lemma calls_invoke [simp]: "calls (invoke c w) = calls w @ [c]"
  by (simp add: invoke_def)

lemma validate_and_clean_urls_report:
  "validate_and_clean_urls urls = Inr valid_urls \<Longrightarrow>
     \<exists>issues. validate_and_report urls = Inr (valid_urls, issues)"
  by (auto simp: validate_and_clean_urls_def split: sum.splits prod.splits)

lemma find_data_source_by_name_calls:
  "calls (snd (find_data_source_by_name e n w)) = calls w @ [ListDataSources]"
  by (simp add: find_data_source_by_name_def split: sum.splits)

lemma create_over_budget:
  assumes "validate_and_report (gather_all_urls (files e) catalogue_name) = Inr (validated_urls, issues)"
    and "total_chars (deduplicate_urls validated_urls) > 3000"
  shows "\<exists>err w'. create_catalogue_data_source e catalogue_name w = (Inl err, w') \<and> calls w' = calls w"
  using assms by (simp add: create_catalogue_data_source_def Let_def)

text \<open>
  Claim C1: when the reconciled list (the deduplicated validated URLs) has more than 3000
  characters in total, \<^verbatim>\<open>load_catalogue\<close> does not succeed (it returns \<^verbatim>\<open>False\<close> or
  raises), and it makes no creating, updating or job-starting call: where the data source
  exists the check of \<^verbatim>\<open>load_catalogue\<close> returns before the update, and where it does not
  the check of \<^verbatim>\<open>_create_catalogue_data_source\<close> raises before the creation.
\<close>

theorem over_budget_no_mutation:
  assumes "validate_and_clean_urls (gather_all_urls (files e) catalogue_name) = Inr validated_urls"
    and "total_chars (deduplicate_urls validated_urls) > 3000"
  shows "fst (load_catalogue e catalogue_name w) \<noteq> Inr True
       \<and> filter is_mutation (calls (snd (load_catalogue e catalogue_name w)))
           = filter is_mutation (calls w)"
proof -
  obtain issues where rep:
    "validate_and_report (gather_all_urls (files e) catalogue_name) = Inr (validated_urls, issues)"
    using validate_and_clean_urls_report [OF assms(1)] by blast
  obtain existing w1 where found:
    "find_data_source_by_name e (''fixtures-'' @ catalogue_name @ ''-kb-source'') w = (existing, w1)"
    by (cases "find_data_source_by_name e (''fixtures-'' @ catalogue_name @ ''-kb-source'') w")
  have c1: "calls w1 = calls w @ [ListDataSources]"
    using find_data_source_by_name_calls [of e "''fixtures-'' @ catalogue_name @ ''-kb-source''" w]
      found by simp
  show ?thesis
  proof (cases "files e (ai_kb_fixtures_dir catalogue_name) = None")
    case True
    then show ?thesis by (simp add: load_catalogue_def)
  next
    case False
    show ?thesis
    proof (cases existing)
      case None
      obtain err w2 where cr: "create_catalogue_data_source e catalogue_name w1 = (Inl err, w2)"
        and c2: "calls w2 = calls w1"
        using create_over_budget [OF rep assms(2), of w1] by blast
      show ?thesis
        using False found None cr c1 c2
        by (simp add: load_catalogue_def get_or_create_catalogue_data_source_def)
    next
      case (Some d)
      show ?thesis
        using False found Some rep assms(2) c1
        by (simp add: load_catalogue_def get_or_create_catalogue_data_source_def Let_def)
    qed
  qed
qed


lemma dropWhile_replicate_append:
  "\<not> P x \<Longrightarrow> \<not> P y \<Longrightarrow> dropWhile P (replicate n x @ y # ys) = replicate n x @ y # ys"
  by (cases n) auto

lemma long_url_strip: "strip long_url = long_url"
proof -
  have "dropWhile isspace (replicate 3000 (CHR ''x'') @ CHR ''/'' # ''elpmaxe.a//:sptth'')
      = replicate 3000 (CHR ''x'') @ CHR ''/'' # ''elpmaxe.a//:sptth''"
    by (rule dropWhile_replicate_append) (simp_all add: isspace_def)
  then show ?thesis
    by (simp add: strip_def long_url_def isspace_def)
qed

lemma long_url_parse: "urlparse long_url = Inr \<lparr>scheme = ''https'', netloc = ''a.example''\<rparr>"
  by (simp add: urlparse_def long_url_def split_scheme_def is_ascii_alpha_def is_scheme_char_def
      is_c0_or_space_def is_unsafe_byte_def is_netloc_delim_def lower_def lower_char_def
      filter_replicate Let_def)

lemma long_url_nonempty: "long_url \<noteq> []"
  by (simp add: long_url_def)

lemma long_url_valid: "validate_and_clean_urls [long_url] = Inr [long_url]"
  by (simp add: validate_and_clean_urls_def validate_and_report_def long_url_strip long_url_parse
      long_url_nonempty)

lemma over_budget_gather: "gather_all_urls (files over_budget_env) ''nist'' = [long_url]"
  by (simp add: gather_all_urls_def over_budget_env_def over_budget_files_def
      load_catalogue_urls_def base_fixtures_dir_def ai_kb_fixtures_dir_def endswith_def)

theorem over_budget_no_mutation_witness:
  "validate_and_clean_urls (gather_all_urls (files over_budget_env) ''nist'') = Inr [long_url]
   \<and> total_chars (deduplicate_urls [long_url]) = 3018
   \<and> fst (load_catalogue over_budget_env ''nist'' initial_world) \<noteq> Inr True
   \<and> filter is_mutation (calls (snd (load_catalogue over_budget_env ''nist'' initial_world))) = []"
proof -
  have h1: "validate_and_clean_urls (gather_all_urls (files over_budget_env) ''nist'')
      = Inr [long_url]"
    by (simp only: over_budget_gather long_url_valid)
  have t: "total_chars (deduplicate_urls [long_url]) = 3018"
    by (simp add: deduplicate_urls_def total_chars_def long_url_def)
  have h2: "total_chars (deduplicate_urls [long_url]) > 3000"
    by (simp add: t)
  have i: "calls initial_world = []"
    by (simp add: initial_world_def)
  from over_budget_no_mutation [OF h1 h2, of initial_world] h1 t i show ?thesis by simp
qed

lemma create_calls:
  "calls (snd (create_catalogue_data_source e catalogue_name w)) = calls w
   \<or> (\<exists>request. calls (snd (create_catalogue_data_source e catalogue_name w))
         = calls w @ [CreateDataSource request])"
  by (auto simp: create_catalogue_data_source_def Let_def split: sum.splits prod.splits)

lemma example_report:
  "validate_and_report
     [''https://a.example/x'', '' https://b.example/y'', ''https://b.example/y'', ''nope'',
      ''https://c.example/'']
   = Inr ([''https://a.example/x'', ''https://b.example/y'', ''https://b.example/y'',
      ''https://c.example/''], [InvalidFormat ''nope''])"
  by (simp add: validate_and_report_def strip_def isspace_def
      urlparse_def split_scheme_def is_ascii_alpha_def is_scheme_char_def is_c0_or_space_def
      is_unsafe_byte_def is_netloc_delim_def lower_def lower_char_def Let_def
      quality_issues_def is_suspicious_def suspicious_patterns_def re_search_ignorecase_def)

text \<open>
  Claim C8, as the code has it: when listing the data sources raises, the error is printed
  and \<^verbatim>\<open>_find_data_source_by_name\<close> returns \<^verbatim>\<open>None\<close>, as if no data source had the
  name; the resolution then is the creation of a new data source, and the listing is called
  once, never again.
\<close>

theorem listing_error_means_create:
  assumes "list_data_sources e (length (calls w)) = Inl err"
  shows "find_data_source_by_name e data_source_name w
           = (None, print (ErrorListing (str_exn err)) (invoke ListDataSources w))
       \<and> fst (get_or_create_catalogue_data_source e catalogue_name w)
           = fst (create_catalogue_data_source e catalogue_name
                    (print (ErrorListing (str_exn err)) (invoke ListDataSources w)))
       \<and> length (filter (\<lambda>c. c = ListDataSources)
             (calls (snd (get_or_create_catalogue_data_source e catalogue_name w))))
           = Suc (length (filter (\<lambda>c. c = ListDataSources) (calls w)))"
proof -
  let ?w1 = "print (ErrorListing (str_exn err)) (invoke ListDataSources w)"
  have f: "\<And>n. find_data_source_by_name e n w = (None, ?w1)"
    using assms by (simp add: find_data_source_by_name_def)
  obtain r w2 where cr: "create_catalogue_data_source e catalogue_name ?w1 = (r, w2)"
    by (cases "create_catalogue_data_source e catalogue_name ?w1")
  have c: "calls w2 = calls ?w1 \<or> (\<exists>request. calls w2 = calls ?w1 @ [CreateDataSource request])"
    using create_calls [of e catalogue_name ?w1] cr by simp
  have g: "fst (get_or_create_catalogue_data_source e catalogue_name w) = r"
    using f cr by (cases r) (simp_all add: get_or_create_catalogue_data_source_def)
  have gc: "calls (snd (get_or_create_catalogue_data_source e catalogue_name w)) = calls w2"
    using f cr by (cases r) (simp_all add: get_or_create_catalogue_data_source_def)
  have n: "length (filter (\<lambda>c. c = ListDataSources) (calls w2))
      = Suc (length (filter (\<lambda>c. c = ListDataSources) (calls w)))"
    using c by auto
  from f g gc n cr show ?thesis by simp
qed

lemma listing_fails_run:
  "get_or_create_catalogue_data_source listing_fails_env ''nist'' initial_world
   = (Inr ''ds-2'',
      \<lparr>calls = [ListDataSources,
                CreateDataSource (new_data_source_request listing_fails_env ''nist''
                  [''https://a.example/x'', ''https://b.example/y'', ''https://c.example/''])],
       printed = [ErrorListing ''network down'', ValidationReport [InvalidFormat ''nope'']],
       clock = 1000, connected = audit_receivers, loaded = []\<rparr>)"
proof -
  let ?w1 = "\<lparr>calls = [ListDataSources], printed = [ErrorListing ''network down''],
       clock = 1000, connected = audit_receivers, loaded = []\<rparr>"
  have g: "gather_all_urls (files listing_fails_env) ''nist'' =
     [''https://a.example/x'', '' https://b.example/y'', ''https://b.example/y'', ''nope'',
      ''https://c.example/'']"
    by (simp add: listing_fails_env_def example_env_def example_gather)
  have l: "list_data_sources listing_fails_env = (\<lambda>k. Inl (Exception ''network down''))"
    by (simp add: listing_fails_env_def)
  have c: "create_data_source listing_fails_env = (\<lambda>k r. Inr ''ds-2'')"
    by (simp add: listing_fails_env_def example_env_def)
  have f: "find_data_source_by_name listing_fails_env ''fixtures-nist-kb-source'' initial_world
      = (None, ?w1)"
    by (simp add: find_data_source_by_name_def l initial_world_def print_def invoke_def)
  have cr: "create_catalogue_data_source listing_fails_env ''nist'' ?w1
      = (Inr ''ds-2'',
      \<lparr>calls = [ListDataSources,
                CreateDataSource (new_data_source_request listing_fails_env ''nist''
                  [''https://a.example/x'', ''https://b.example/y'', ''https://c.example/''])],
       printed = [ErrorListing ''network down'', ValidationReport [InvalidFormat ''nope'']],
       clock = 1000, connected = audit_receivers, loaded = []\<rparr>)"
    by (simp add: create_catalogue_data_source_def g c example_report deduplicate_urls_def
        total_chars_def Let_def print_def invoke_def)
  show ?thesis
    by (simp add: get_or_create_catalogue_data_source_def f cr)
qed

text \<open>
  Claim C8 as stated fails: with a listing that raises, the resolution makes one listing call,
  no second one, and goes on to create a data source.
\<close>

theorem listing_error_not_retried:
  "fst (get_or_create_catalogue_data_source listing_fails_env ''nist'' initial_world) = Inr ''ds-2''
   \<and> calls (snd (get_or_create_catalogue_data_source listing_fails_env ''nist'' initial_world))
       = [ListDataSources,
          CreateDataSource (new_data_source_request listing_fails_env ''nist''
            [''https://a.example/x'', ''https://b.example/y'', ''https://c.example/''])]"
  by (simp add: listing_fails_run)

theorem listing_error_means_create_witness:
  "list_data_sources listing_fails_env (length (calls initial_world)) = Inl (Exception ''network down'')
   \<and> fst (find_data_source_by_name listing_fails_env ''fixtures-nist-kb-source'' initial_world) = None
   \<and> length (filter (\<lambda>c. c = ListDataSources)
        (calls (snd (get_or_create_catalogue_data_source listing_fails_env ''nist'' initial_world))))
      = 1"
proof -
  have h: "list_data_sources listing_fails_env (length (calls initial_world))
      = Inl (Exception ''network down'')"
    by (simp add: listing_fails_env_def example_env_def)
  have i: "calls initial_world = []"
    by (simp add: initial_world_def)
  from listing_error_means_create [OF h, of "''fixtures-nist-kb-source''" "''nist''"] h i
  show ?thesis by simp
qed

lemma printed_print [simp]: "printed (print m w) = printed w @ [m]"
  by (simp add: print_def)

lemma printed_invoke [simp]: "printed (invoke c w) = printed w"
  by (simp add: invoke_def)

lemma printed_sleep [simp]: "printed (sleep n w) = printed w"
  by (simp add: sleep_def)

lemma calls_sleep [simp]: "calls (sleep n w) = calls w"
  by (simp add: sleep_def)

lemma find_quiet:
  "NoUrlsFound \<in> set (printed (snd (find_data_source_by_name e n w)))
     \<longleftrightarrow> NoUrlsFound \<in> set (printed w)"
  by (auto simp: find_data_source_by_name_def split: sum.splits)

lemma create_quiet:
  "NoUrlsFound \<in> set (printed (snd (create_catalogue_data_source e c w)))
     \<longleftrightarrow> NoUrlsFound \<in> set (printed w)"
  by (auto simp: create_catalogue_data_source_def Let_def split: sum.splits prod.splits)

lemma get_or_create_quiet:
  "NoUrlsFound \<in> set (printed (snd (get_or_create_catalogue_data_source e c w)))
     \<longleftrightarrow> NoUrlsFound \<in> set (printed w)"
proof -
  obtain x w1 where f: "find_data_source_by_name e (''fixtures-'' @ c @ ''-kb-source'') w = (x, w1)"
    by (cases "find_data_source_by_name e (''fixtures-'' @ c @ ''-kb-source'') w")
  obtain r w2 where cr: "create_catalogue_data_source e c w1 = (r, w2)"
    by (cases "create_catalogue_data_source e c w1")
  have 1: "NoUrlsFound \<in> set (printed w1) \<longleftrightarrow> NoUrlsFound \<in> set (printed w)"
    using find_quiet [of e "''fixtures-'' @ c @ ''-kb-source''" w] f by simp
  have 2: "NoUrlsFound \<in> set (printed w2) \<longleftrightarrow> NoUrlsFound \<in> set (printed w1)"
    using create_quiet [of e c w1] cr by simp
  show ?thesis
    using f cr 1 2
    by (cases x; cases r) (simp_all add: get_or_create_catalogue_data_source_def)
qed

lemma update_quiet:
  "NoUrlsFound \<in> set (printed (update_data_source_urls e c d urls w))
     \<longleftrightarrow> NoUrlsFound \<in> set (printed w)"
  by (auto simp: update_data_source_urls_def Let_def split: sum.splits option.splits)

lemma start_quiet:
  "NoUrlsFound \<in> set (printed (snd (start_job e d w))) \<longleftrightarrow> NoUrlsFound \<in> set (printed w)"
  by (auto simp: start_job_def Let_def split: sum.splits)

lemma wait_loop_quiet:
  "NoUrlsFound \<in> set (printed (snd (wait_loop e d j s t w))) \<longleftrightarrow> NoUrlsFound \<in> set (printed w)"
proof (induction e d j s t w rule: wait_loop.induct)
  case (1 e d j s t w)
  show ?case
    by (subst wait_loop.simps) (auto simp: 1 Let_def split: prod.splits sum.splits)
qed

lemma loaddata_all_printed: "printed (snd (loaddata_all e d fs w)) = printed w"
  by (induction fs arbitrary: w) (auto simp: Let_def split: option.splits)

lemma from_dir_quiet:
  "NoUrlsFound \<in> set (printed (load_django_fixtures_from_dir e d n w))
     \<longleftrightarrow> NoUrlsFound \<in> set (printed w)"
proof -
  have c: "\<And>w. printed (connect_audit w) = printed w"
    by (simp add: connect_audit_def connect_def)
  have dc: "\<And>w. printed (disconnect_audit w) = printed w"
    by (simp add: disconnect_audit_def disconnect_def)
  show ?thesis
  proof (cases "files e d")
    case None
    then show ?thesis by (simp add: load_django_fixtures_from_dir_def)
  next
    case (Some entries)
    let ?fx = "filter (\<lambda>f. endswith f ''.json'' \<and> startswith f ''django_'') (map fst entries)"
    obtain r w1 where run: "loaddata_all e d (sort ?fx) (disconnect_audit w) = (r, w1)"
      by (cases "loaddata_all e d (sort ?fx) (disconnect_audit w)")
    have "printed w1 = printed w"
      using loaddata_all_printed [of e d "sort ?fx" "disconnect_audit w"] run dc by simp
    then show ?thesis
      using Some run c by (cases r) (simp_all add: load_django_fixtures_from_dir_def Let_def)
  qed
qed

lemma load_django_fixtures_quiet:
  "NoUrlsFound \<in> set (printed (load_django_fixtures e c w)) \<longleftrightarrow> NoUrlsFound \<in> set (printed w)"
  by (simp add: load_django_fixtures_def Let_def from_dir_quiet)


lemma update_calls_cases:
  "calls (update_data_source_urls e c d urls w) = calls w @ [GetDataSource d]
   \<or> (\<exists>r. calls (update_data_source_urls e c d urls w)
            = calls w @ [GetDataSource d, UpdateDataSource r]
          \<and> request_seed_urls r = Some urls)
   \<or> (\<exists>r. calls (update_data_source_urls e c d urls w)
            = calls w @ [GetDataSource d, UpdateDataSource r, UpdateDataSource r]
          \<and> request_seed_urls r = Some urls)"
  by (auto simp: update_data_source_urls_def request_seed_urls_def Let_def
      split: sum.splits option.splits)

lemma update_calls:
  "\<exists>ups. calls (update_data_source_urls e c d urls w)
            = calls w @ GetDataSource d # map UpdateDataSource ups
         \<and> (\<forall>r\<in>set ups. request_seed_urls r = Some urls)"
proof -
  consider
    (none) "calls (update_data_source_urls e c d urls w) = calls w @ [GetDataSource d]"
  | (one) r where "calls (update_data_source_urls e c d urls w)
        = calls w @ [GetDataSource d, UpdateDataSource r]" "request_seed_urls r = Some urls"
  | (two) r where "calls (update_data_source_urls e c d urls w)
        = calls w @ [GetDataSource d, UpdateDataSource r, UpdateDataSource r]"
      "request_seed_urls r = Some urls"
    using update_calls_cases [of e c d urls w] by blast
  then show ?thesis
  proof cases
    case none
    then show ?thesis by (intro exI [of _ "[]"]) simp
  next
    case (one r)
    then show ?thesis by (intro exI [of _ "[r]"]) simp
  next
    case (two r)
    then show ?thesis by (intro exI [of _ "[r, r]"]) simp
  qed
qed

lemma update_sent_when_web:
  assumes "get_data_source e (length (calls w)) d = Inr ds"
    and "cfg_type (dataSourceConfiguration ds) = Some ''WEB''"
    and "webConfiguration (dataSourceConfiguration ds) = Some web"
    and "urlConfiguration web \<noteq> None"
  shows "calls (update_data_source_urls e c d urls w) \<noteq> calls w @ [GetDataSource d]"
  using assms
  by (auto simp: update_data_source_urls_def Let_def split: sum.splits option.splits)

lemma start_job_calls: "calls (snd (start_job e d w)) = calls w @ [StartIngestionJob d]"
  by (auto simp: start_job_def Let_def split: sum.splits)

lemma wait_loop_calls: "\<exists>rest. calls (snd (wait_loop e d j s t w)) = calls w @ rest"
proof (induction e d j s t w rule: wait_loop.induct)
  case (1 e d j s t w)
  show ?case
    apply (subst wait_loop.simps)
    using 1 by (fastforce simp: Let_def split: prod.splits sum.splits)
qed

lemma loaddata_all_calls: "calls (snd (loaddata_all e d fs w)) = calls w"
  by (induction fs arbitrary: w) (auto simp: Let_def split: option.splits)

lemma from_dir_calls: "calls (load_django_fixtures_from_dir e d n w) = calls w"
proof -
  have c: "\<And>w. calls (connect_audit w) = calls w"
    by (simp add: connect_audit_def connect_def)
  have dc: "\<And>w. calls (disconnect_audit w) = calls w"
    by (simp add: disconnect_audit_def disconnect_def)
  show ?thesis
  proof (cases "files e d")
    case None
    then show ?thesis by (simp add: load_django_fixtures_from_dir_def)
  next
    case (Some entries)
    let ?fx = "filter (\<lambda>f. endswith f ''.json'' \<and> startswith f ''django_'') (map fst entries)"
    obtain r w1 where run: "loaddata_all e d (sort ?fx) (disconnect_audit w) = (r, w1)"
      by (cases "loaddata_all e d (sort ?fx) (disconnect_audit w)")
    have "calls w1 = calls w"
      using loaddata_all_calls [of e d "sort ?fx" "disconnect_audit w"] run dc by simp
    then show ?thesis
      using Some run c by (cases r) (simp_all add: load_django_fixtures_from_dir_def Let_def)
  qed
qed

lemma load_django_fixtures_calls: "calls (load_django_fixtures e c w) = calls w"
  by (simp add: load_django_fixtures_def Let_def from_dir_calls)


lemma load_catalogue_quiet_unless_empty:
  assumes "NoUrlsFound \<in> set (printed (snd (load_catalogue e c w)))"
    and "NoUrlsFound \<notin> set (printed w)"
  shows "gather_all_urls (files e) c = []"
proof (rule ccontr)
  assume ne: "gather_all_urls (files e) c \<noteq> []"
  obtain r1 w1 where g: "get_or_create_catalogue_data_source e c w = (r1, w1)"
    by (cases "get_or_create_catalogue_data_source e c w")
  have q1: "NoUrlsFound \<notin> set (printed w1)"
    using get_or_create_quiet [of e c w] g assms(2) by simp
  have "NoUrlsFound \<notin> set (printed (snd (load_catalogue e c w)))"
  proof (cases "files e (ai_kb_fixtures_dir c) = None")
    case True
    then show ?thesis using assms(2) by (simp add: load_catalogue_def)
  next
    case nonempty: False
    then obtain entries where False: "files e (ai_kb_fixtures_dir c) = Some entries"
      by auto
    show ?thesis
    proof (cases r1)
      case (Inl err)
      then show ?thesis using False g q1 by (simp add: load_catalogue_def)
    next
      case (Inr d)
      show ?thesis
      proof (cases "validate_and_report (gather_all_urls (files e) c)")
        case (Inl err)
        then show ?thesis using False g Inr q1 ne by (simp add: load_catalogue_def)
      next
        case rep: (Inr p)
        obtain v issues where p: "p = (v, issues)" by (cases p)
        let ?w2 = "print (ValidationReport issues) w1"
        let ?w3 = "update_data_source_urls e c d (deduplicate_urls v) ?w2"
        obtain r4 w4 where st: "start_job e d ?w3 = (r4, w4)"
          by (cases "start_job e d ?w3")
        have q3: "NoUrlsFound \<notin> set (printed ?w3)"
          using q1 by (simp add: update_quiet)
        have q4: "NoUrlsFound \<notin> set (printed w4)"
          using start_quiet [of e d ?w3] st q3 by simp
        show ?thesis
        proof (cases "total_chars (deduplicate_urls v) > 3000")
          case True
          then show ?thesis
            using False g Inr rep p q1 ne by (simp add: load_catalogue_def Let_def)
        next
          case small: False
          show ?thesis
          proof (cases r4)
            case (Inl err)
            then show ?thesis
              using False g Inr rep p ne small st q4 by (simp add: load_catalogue_def Let_def)
          next
            case job: (Inr job_id)
            obtain b w5 where wt: "wait_for_ingestion_completion e d job_id 20 w4 = (b, w5)"
              by (cases "wait_for_ingestion_completion e d job_id 20 w4")
            have q5: "NoUrlsFound \<notin> set (printed w5)"
              using wait_loop_quiet [of e d job_id "clock w4" 20 w4] wt q4
              by (simp add: wait_for_ingestion_completion_def)
            show ?thesis
              using False g Inr rep p ne small st job wt q5
              by (cases b) (simp_all add: load_catalogue_def Let_def load_django_fixtures_quiet)
          qed
        qed
      qed
    qed
  qed
  with assms(1) show False by simp
qed

lemma load_catalogue_rejected_calls:
  assumes dir: "files e (ai_kb_fixtures_dir c) \<noteq> None"
    and res: "get_or_create_catalogue_data_source e c w = (Inr d, w1)"
    and ne: "gather_all_urls (files e) c \<noteq> []"
    and rej: "validate_and_clean_urls (gather_all_urls (files e) c) = Inr []"
  shows "\<exists>ups rest. calls (snd (load_catalogue e c w))
            = calls w1 @ GetDataSource d # map UpdateDataSource ups @ StartIngestionJob d # rest
         \<and> (\<forall>r\<in>set ups. request_seed_urls r = Some [])
         \<and> ((\<exists>ds web. get_data_source e (length (calls w1)) d = Inr ds
                \<and> cfg_type (dataSourceConfiguration ds) = Some ''WEB''
                \<and> webConfiguration (dataSourceConfiguration ds) = Some web
                \<and> urlConfiguration web \<noteq> None) \<longrightarrow> ups \<noteq> [])"
proof -
  obtain entries where dir: "files e (ai_kb_fixtures_dir c) = Some entries"
    using dir by auto
  obtain issues where rep: "validate_and_report (gather_all_urls (files e) c) = Inr ([], issues)"
    using validate_and_clean_urls_report [OF rej] by blast
  let ?w2 = "print (ValidationReport issues) w1"
  let ?w3 = "update_data_source_urls e c d [] ?w2"
  obtain ups where u: "calls ?w3 = calls ?w2 @ GetDataSource d # map UpdateDataSource ups"
    and seeds: "\<forall>r\<in>set ups. request_seed_urls r = Some []"
    using update_calls [of e c d "[]" ?w2] by blast
  have web: "(\<exists>ds web. get_data_source e (length (calls w1)) d = Inr ds
                \<and> cfg_type (dataSourceConfiguration ds) = Some ''WEB''
                \<and> webConfiguration (dataSourceConfiguration ds) = Some web
                \<and> urlConfiguration web \<noteq> None) \<longrightarrow> ups \<noteq> []"
  proof
    assume "\<exists>ds web. get_data_source e (length (calls w1)) d = Inr ds
                \<and> cfg_type (dataSourceConfiguration ds) = Some ''WEB''
                \<and> webConfiguration (dataSourceConfiguration ds) = Some web
                \<and> urlConfiguration web \<noteq> None"
    then obtain ds web where "get_data_source e (length (calls ?w2)) d = Inr ds"
      "cfg_type (dataSourceConfiguration ds) = Some ''WEB''"
      "webConfiguration (dataSourceConfiguration ds) = Some web"
      "urlConfiguration web \<noteq> None"
      by auto
    from update_sent_when_web [OF this, of c "[]"] u show "ups \<noteq> []" by auto
  qed
  obtain r4 w4 where st: "start_job e d ?w3 = (r4, w4)"
    by (cases "start_job e d ?w3")
  have c4: "calls w4 = calls ?w3 @ [StartIngestionJob d]"
    using start_job_calls [of e d ?w3] st by simp
  have "\<exists>rest. calls (snd (load_catalogue e c w)) = calls w4 @ rest"
  proof (cases r4)
    case (Inl err)
    then show ?thesis
      using dir res ne rep st
      by (simp add: load_catalogue_def Let_def deduplicate_urls_def total_chars_def)
  next
    case job: (Inr job_id)
    obtain b w5 where wt: "wait_for_ingestion_completion e d job_id 20 w4 = (b, w5)"
      by (cases "wait_for_ingestion_completion e d job_id 20 w4")
    obtain rest where c5: "calls w5 = calls w4 @ rest"
      using wait_loop_calls [of e d job_id "clock w4" 20 w4] wt
      by (auto simp: wait_for_ingestion_completion_def)
    show ?thesis
      using dir res ne rep st job wt c5
      by (cases b) (simp_all add: load_catalogue_def Let_def deduplicate_urls_def total_chars_def
          load_django_fixtures_calls)
  qed
  then obtain rest where "calls (snd (load_catalogue e c w)) = calls w4 @ rest" ..
  with c4 u have "calls (snd (load_catalogue e c w))
      = calls w1 @ GetDataSource d # map UpdateDataSource ups @ StartIngestionJob d # rest"
    by simp
  with seeds web show ?thesis by blast
qed

text \<open>
  Claim C10: when the catalogue directory exists, the data source is resolved, and the raw
  list is not empty but validation keeps none of its URLs, the final list is empty, its
  character count is 0, and the run goes on: it fetches the data source, every update
  request it sends carries the empty seed list (one is sent when the fetched source is a web
  crawler with a URL configuration), and it calls for the start of an ingestion job. The
  line \<^verbatim>\<open>No URLs found to load!\<close> is printed by a run only when the raw list is empty.
\<close>

theorem all_rejected_still_proceeds:
  "(files e (ai_kb_fixtures_dir c) \<noteq> None
      \<and> get_or_create_catalogue_data_source e c w = (Inr d, w1)
      \<and> gather_all_urls (files e) c \<noteq> []
      \<and> validate_and_clean_urls (gather_all_urls (files e) c) = Inr []
    \<longrightarrow> total_chars (deduplicate_urls []) = 0
      \<and> (\<exists>ups rest. calls (snd (load_catalogue e c w))
              = calls w1 @ GetDataSource d # map UpdateDataSource ups @ StartIngestionJob d # rest
            \<and> (\<forall>r\<in>set ups. request_seed_urls r = Some [])
            \<and> ((\<exists>ds web. get_data_source e (length (calls w1)) d = Inr ds
                   \<and> cfg_type (dataSourceConfiguration ds) = Some ''WEB''
                   \<and> webConfiguration (dataSourceConfiguration ds) = Some web
                   \<and> urlConfiguration web \<noteq> None) \<longrightarrow> ups \<noteq> [])))
   \<and> (NoUrlsFound \<in> set (printed (snd (load_catalogue e c w)))
        \<and> NoUrlsFound \<notin> set (printed w)
      \<longrightarrow> gather_all_urls (files e) c = [])"
proof (intro conjI impI)
  assume "NoUrlsFound \<in> set (printed (snd (load_catalogue e c w)))
        \<and> NoUrlsFound \<notin> set (printed w)"
  then show "gather_all_urls (files e) c = []"
    using load_catalogue_quiet_unless_empty by blast
next
  show "total_chars (deduplicate_urls []) = 0"
    by (simp add: total_chars_def deduplicate_urls_def)
next
  assume h: "files e (ai_kb_fixtures_dir c) \<noteq> None
      \<and> get_or_create_catalogue_data_source e c w = (Inr d, w1)
      \<and> gather_all_urls (files e) c \<noteq> []
      \<and> validate_and_clean_urls (gather_all_urls (files e) c) = Inr []"
  then show "\<exists>ups rest. calls (snd (load_catalogue e c w))
              = calls w1 @ GetDataSource d # map UpdateDataSource ups @ StartIngestionJob d # rest
            \<and> (\<forall>r\<in>set ups. request_seed_urls r = Some [])
            \<and> ((\<exists>ds web. get_data_source e (length (calls w1)) d = Inr ds
                   \<and> cfg_type (dataSourceConfiguration ds) = Some ''WEB''
                   \<and> webConfiguration (dataSourceConfiguration ds) = Some web
                   \<and> urlConfiguration web \<noteq> None) \<longrightarrow> ups \<noteq> [])"
    using load_catalogue_rejected_calls [of e c w d w1] by blast
qed

lemma rejected_gather: "gather_all_urls (files rejected_env) ''nist'' = [''nope'', '' '']"
  by (simp add: gather_all_urls_def rejected_env_def rejected_files_def
      load_catalogue_urls_def base_fixtures_dir_def ai_kb_fixtures_dir_def endswith_def)

lemma rejected_validated: "validate_and_clean_urls [''nope'', '' ''] = Inr []"
  by (simp add: validate_and_clean_urls_def validate_and_report_def strip_def isspace_def
      urlparse_def split_scheme_def is_ascii_alpha_def is_scheme_char_def is_c0_or_space_def
      is_unsafe_byte_def is_netloc_delim_def lower_def lower_char_def Let_def)

lemma rejected_resolution:
  "get_or_create_catalogue_data_source rejected_env ''nist'' initial_world
     = (Inr ''ds-1'', initial_world\<lparr>calls := [ListDataSources]\<rparr>)"
  by (simp add: get_or_create_catalogue_data_source_def find_data_source_by_name_def
      rejected_env_def example_env_def initial_world_def invoke_def)

theorem all_rejected_still_proceeds_witness:
  "files rejected_env (ai_kb_fixtures_dir ''nist'') \<noteq> None
   \<and> get_or_create_catalogue_data_source rejected_env ''nist'' initial_world
       = (Inr ''ds-1'', initial_world\<lparr>calls := [ListDataSources]\<rparr>)
   \<and> gather_all_urls (files rejected_env) ''nist'' = [''nope'', '' '']
   \<and> validate_and_clean_urls [''nope'', '' ''] = Inr []
   \<and> GetDataSource ''ds-1'' \<in> set (calls (snd (load_catalogue rejected_env ''nist'' initial_world)))
   \<and> StartIngestionJob ''ds-1''
       \<in> set (calls (snd (load_catalogue rejected_env ''nist'' initial_world)))
   \<and> NoUrlsFound \<notin> set (printed (snd (load_catalogue rejected_env ''nist'' initial_world)))"
proof -
  have h1: "files rejected_env (ai_kb_fixtures_dir ''nist'') \<noteq> None"
    by (simp add: rejected_env_def rejected_files_def ai_kb_fixtures_dir_def)
  have h4: "validate_and_clean_urls (gather_all_urls (files rejected_env) ''nist'') = Inr []"
    by (simp only: rejected_gather rejected_validated)
  have h3: "gather_all_urls (files rejected_env) ''nist'' \<noteq> []"
    by (simp add: rejected_gather)
  have p: "NoUrlsFound \<notin> set (printed initial_world)"
    by (simp add: initial_world_def)
  note t = all_rejected_still_proceeds [of rejected_env "''nist''" initial_world "''ds-1''"
      "initial_world\<lparr>calls := [ListDataSources]\<rparr>"]
  from t h1 rejected_resolution h3 h4 obtain ups rest where
    "calls (snd (load_catalogue rejected_env ''nist'' initial_world))
       = calls (initial_world\<lparr>calls := [ListDataSources]\<rparr>) @ GetDataSource ''ds-1''
           # map UpdateDataSource ups @ StartIngestionJob ''ds-1'' # rest"
    by blast
  then have c: "GetDataSource ''ds-1''
        \<in> set (calls (snd (load_catalogue rejected_env ''nist'' initial_world)))
      \<and> StartIngestionJob ''ds-1''
        \<in> set (calls (snd (load_catalogue rejected_env ''nist'' initial_world)))"
    by simp
  from t h3 p have "NoUrlsFound
      \<notin> set (printed (snd (load_catalogue rejected_env ''nist'' initial_world)))"
    by blast
  with h1 rejected_resolution rejected_gather rejected_validated c show ?thesis by simp
qed

lemma load_catalogue_proceeds:
  assumes dir: "files e (ai_kb_fixtures_dir c) \<noteq> None"
    and res: "get_or_create_catalogue_data_source e c w = (Inr d, w1)"
    and ne: "gather_all_urls (files e) c \<noteq> []"
    and val: "validate_and_clean_urls (gather_all_urls (files e) c) = Inr v"
    and small: "total_chars (deduplicate_urls v) \<le> 3000"
  shows "\<exists>ups rest. calls (snd (load_catalogue e c w))
            = calls w1 @ GetDataSource d # map UpdateDataSource ups @ StartIngestionJob d # rest"
proof -
  obtain entries where dir: "files e (ai_kb_fixtures_dir c) = Some entries"
    using dir by auto
  obtain issues where rep: "validate_and_report (gather_all_urls (files e) c) = Inr (v, issues)"
    using validate_and_clean_urls_report [OF val] by blast
  have small: "\<not> total_chars (deduplicate_urls v) > 3000"
    using small by simp
  let ?w2 = "print (ValidationReport issues) w1"
  let ?w3 = "update_data_source_urls e c d (deduplicate_urls v) ?w2"
  obtain ups where u: "calls ?w3 = calls ?w2 @ GetDataSource d # map UpdateDataSource ups"
    using update_calls [of e c d "deduplicate_urls v" ?w2] by blast
  obtain r4 w4 where st: "start_job e d ?w3 = (r4, w4)"
    by (cases "start_job e d ?w3")
  have c4: "calls w4 = calls ?w3 @ [StartIngestionJob d]"
    using start_job_calls [of e d ?w3] st by simp
  have "\<exists>rest. calls (snd (load_catalogue e c w)) = calls w4 @ rest"
  proof (cases r4)
    case (Inl err)
    then show ?thesis
      using dir res ne rep st small by (simp add: load_catalogue_def Let_def)
  next
    case job: (Inr job_id)
    obtain b w5 where wt: "wait_for_ingestion_completion e d job_id 20 w4 = (b, w5)"
      by (cases "wait_for_ingestion_completion e d job_id 20 w4")
    obtain rest where c5: "calls w5 = calls w4 @ rest"
      using wait_loop_calls [of e d job_id "clock w4" 20 w4] wt
      by (auto simp: wait_for_ingestion_completion_def)
    show ?thesis
      using dir res ne rep st job wt c5 small
      by (cases b) (simp_all add: load_catalogue_def Let_def load_django_fixtures_calls)
  qed
  then obtain rest where "calls (snd (load_catalogue e c w)) = calls w4 @ rest" ..
  with c4 u have "calls (snd (load_catalogue e c w))
      = calls w1 @ GetDataSource d # map UpdateDataSource ups @ StartIngestionJob d # rest"
    by simp
  then show ?thesis by blast
qed

lemma update_web_calls:
  assumes "get_data_source e (length (calls w)) d = Inr ds"
    and "cfg_type (dataSourceConfiguration ds) = Some ''WEB''"
    and "webConfiguration (dataSourceConfiguration ds) = Some web"
    and "urlConfiguration web \<noteq> None"
    and "request =
       \<lparr>update_id = d,
        update_name = (case ds_name ds of Some n \<Rightarrow> n
                       | None \<Rightarrow> ''fixtures-'' @ c @ ''-kb-source''),
        update_description = (case ds_description ds of Some t \<Rightarrow> t
                       | None \<Rightarrow> ''Catalogue-specific data source'')
                     @ '' - Updated '' @ c @ '' URLs'',
        update_configuration = (dataSourceConfiguration ds)
           \<lparr>webConfiguration := Some (web\<lparr>urlConfiguration := Some urls\<rparr>)\<rparr>\<rparr>"
  shows "calls (update_data_source_urls e c d urls w)
       = calls w @ GetDataSource d # UpdateDataSource request
          # (case update_data_source e (Suc (length (calls w))) request of
               Inr _ \<Rightarrow> []
             | Inl err \<Rightarrow>
                 if contains (str_exn err) ''vectorIngestionConfiguration''
                 then [UpdateDataSource request] else [])"
  using assms
  by (auto simp: update_data_source_urls_def Let_def split: sum.splits option.splits)

lemma s3_update_run:
  "calls (update_data_source_urls s3_source_env ''nist'' ''ds-1'' [''https://a.example/x'']
      initial_world) = [GetDataSource ''ds-1'']"
  by (simp add: update_data_source_urls_def s3_source_env_def example_env_def s3_source_def
      initial_world_def Let_def)

lemma vector_update_run:
  "calls (update_data_source_urls vector_rejecting_env ''nist'' ''ds-1'' [''https://a.example/x'']
      initial_world)
   = [GetDataSource ''ds-1'', UpdateDataSource example_update_request,
      UpdateDataSource example_update_request]"
  by (simp add: update_data_source_urls_def vector_rejecting_env_def example_env_def
      example_source_def example_update_request_def initial_world_def Let_def)

lemma update_skipped:
  assumes "\<not> (\<exists>ds web. get_data_source e (length (calls w)) d = Inr ds
      \<and> cfg_type (dataSourceConfiguration ds) = Some ''WEB''
      \<and> webConfiguration (dataSourceConfiguration ds) = Some web
      \<and> urlConfiguration web \<noteq> None)"
  shows "calls (update_data_source_urls e c d urls w) = calls w @ [GetDataSource d]
       \<and> (\<exists>msg. printed (update_data_source_urls e c d urls w)
              = printed w @ [ErrorUpdating msg])"
proof (cases "get_data_source e (length (calls w)) d")
  case (Inl err)
  then show ?thesis
    by (simp add: update_data_source_urls_def Let_def)
next
  case (Inr ds)
  show ?thesis
  proof (cases "cfg_type (dataSourceConfiguration ds) = Some ''WEB''")
    case False
    with Inr show ?thesis
      by (simp add: update_data_source_urls_def Let_def)
  next
    case True
    show ?thesis
    proof (cases "webConfiguration (dataSourceConfiguration ds)")
      case None
      with Inr True show ?thesis
        by (simp add: update_data_source_urls_def Let_def)
    next
      case (Some web)
      with assms Inr True have "urlConfiguration web = None"
        by auto
      with Inr True Some show ?thesis
        by (simp add: update_data_source_urls_def Let_def)
    qed
  qed
qed

lemma s3_not_web:
  "\<not> (\<exists>ds web. get_data_source s3_source_env (length (calls initial_world)) ''ds-1'' = Inr ds
      \<and> cfg_type (dataSourceConfiguration ds) = Some ''WEB''
      \<and> webConfiguration (dataSourceConfiguration ds) = Some web
      \<and> urlConfiguration web \<noteq> None)"
  by (auto simp: s3_source_env_def s3_source_def)

text \<open>
  Claim C4, as the code has it. When the fetched data source is a web crawler with a URL
  configuration, one update request is sent: the fetched configuration with only its seed
  URLs replaced, the fetched name (or the default one), and the fetched description (or the
  default one) followed by the suffix. One more update call follows when the service
  rejects the first with an error whose text mentions \<^verbatim>\<open>vectorIngestionConfiguration\<close>, and
  none otherwise. \<^verbatim>\<open>load_catalogue\<close>, once the data source is resolved and the final list is
  within the budget, calls for the start of the ingestion job after the update calls,
  whatever their outcome. In every other case (the fetch raises, the type is not
  \<^verbatim>\<open>WEB\<close>, the web or URL configuration is missing) the fetch is the only call, no update
  is submitted, and the handler prints the error.
\<close>

theorem update_resubmits_and_is_not_fatal:
  "(get_data_source e (length (calls w)) d = Inr ds
      \<and> cfg_type (dataSourceConfiguration ds) = Some ''WEB''
      \<and> webConfiguration (dataSourceConfiguration ds) = Some web
      \<and> urlConfiguration web \<noteq> None
      \<and> request =
          \<lparr>update_id = d,
           update_name = (case ds_name ds of Some n \<Rightarrow> n
                          | None \<Rightarrow> ''fixtures-'' @ c @ ''-kb-source''),
           update_description = (case ds_description ds of Some t \<Rightarrow> t
                          | None \<Rightarrow> ''Catalogue-specific data source'')
                        @ '' - Updated '' @ c @ '' URLs'',
           update_configuration = (dataSourceConfiguration ds)
              \<lparr>webConfiguration := Some (web\<lparr>urlConfiguration := Some urls\<rparr>)\<rparr>\<rparr>
    \<longrightarrow> (\<exists>retries. calls (update_data_source_urls e c d urls w)
             = calls w @ GetDataSource d # UpdateDataSource request # map UpdateDataSource retries
           \<and> length retries =
               (case update_data_source e (Suc (length (calls w))) request of
                  Inr _ \<Rightarrow> 0
                | Inl err \<Rightarrow>
                    if contains (str_exn err) ''vectorIngestionConfiguration'' then 1 else 0)))
   \<and> (files e (ai_kb_fixtures_dir c) \<noteq> None
      \<and> get_or_create_catalogue_data_source e c w0 = (Inr d, w1)
      \<and> gather_all_urls (files e) c \<noteq> []
      \<and> validate_and_clean_urls (gather_all_urls (files e) c) = Inr v
      \<and> total_chars (deduplicate_urls v) \<le> 3000
    \<longrightarrow> (\<exists>ups rest. calls (snd (load_catalogue e c w0))
             = calls w1 @ GetDataSource d # map UpdateDataSource ups
                 @ StartIngestionJob d # rest))
   \<and> (\<not> (\<exists>ds web. get_data_source e (length (calls w)) d = Inr ds
           \<and> cfg_type (dataSourceConfiguration ds) = Some ''WEB''
           \<and> webConfiguration (dataSourceConfiguration ds) = Some web
           \<and> urlConfiguration web \<noteq> None)
    \<longrightarrow> calls (update_data_source_urls e c d urls w) = calls w @ [GetDataSource d]
      \<and> (\<exists>msg. printed (update_data_source_urls e c d urls w)
             = printed w @ [ErrorUpdating msg]))"
proof (intro conjI impI)
  assume "\<not> (\<exists>ds web. get_data_source e (length (calls w)) d = Inr ds
           \<and> cfg_type (dataSourceConfiguration ds) = Some ''WEB''
           \<and> webConfiguration (dataSourceConfiguration ds) = Some web
           \<and> urlConfiguration web \<noteq> None)"
  from update_skipped [OF this, of c urls]
  show "calls (update_data_source_urls e c d urls w) = calls w @ [GetDataSource d]"
    and "\<exists>msg. printed (update_data_source_urls e c d urls w)
             = printed w @ [ErrorUpdating msg]"
    by simp_all
next
  assume h: "get_data_source e (length (calls w)) d = Inr ds
      \<and> cfg_type (dataSourceConfiguration ds) = Some ''WEB''
      \<and> webConfiguration (dataSourceConfiguration ds) = Some web
      \<and> urlConfiguration web \<noteq> None
      \<and> request =
          \<lparr>update_id = d,
           update_name = (case ds_name ds of Some n \<Rightarrow> n
                          | None \<Rightarrow> ''fixtures-'' @ c @ ''-kb-source''),
           update_description = (case ds_description ds of Some t \<Rightarrow> t
                          | None \<Rightarrow> ''Catalogue-specific data source'')
                        @ '' - Updated '' @ c @ '' URLs'',
           update_configuration = (dataSourceConfiguration ds)
              \<lparr>webConfiguration := Some (web\<lparr>urlConfiguration := Some urls\<rparr>)\<rparr>\<rparr>"
  let ?tail = "case update_data_source e (Suc (length (calls w))) request of
               Inr _ \<Rightarrow> []
             | Inl err \<Rightarrow>
                 if contains (str_exn err) ''vectorIngestionConfiguration''
                 then [request] else []"
  have "calls (update_data_source_urls e c d urls w)
       = calls w @ GetDataSource d # UpdateDataSource request # map UpdateDataSource ?tail"
    using update_web_calls [of e w d ds web request c urls] h
    by (auto split: sum.splits)
  moreover have "length ?tail =
      (case update_data_source e (Suc (length (calls w))) request of
         Inr _ \<Rightarrow> 0
       | Inl err \<Rightarrow> if contains (str_exn err) ''vectorIngestionConfiguration'' then 1 else 0)"
    by (auto split: sum.splits)
  ultimately show "\<exists>retries. calls (update_data_source_urls e c d urls w)
             = calls w @ GetDataSource d # UpdateDataSource request # map UpdateDataSource retries
           \<and> length retries =
               (case update_data_source e (Suc (length (calls w))) request of
                  Inr _ \<Rightarrow> 0
                | Inl err \<Rightarrow>
                    if contains (str_exn err) ''vectorIngestionConfiguration'' then 1 else 0)"
    by blast
next
  assume "files e (ai_kb_fixtures_dir c) \<noteq> None
      \<and> get_or_create_catalogue_data_source e c w0 = (Inr d, w1)
      \<and> gather_all_urls (files e) c \<noteq> []
      \<and> validate_and_clean_urls (gather_all_urls (files e) c) = Inr v
      \<and> total_chars (deduplicate_urls v) \<le> 3000"
  then show "\<exists>ups rest. calls (snd (load_catalogue e c w0))
             = calls w1 @ GetDataSource d # map UpdateDataSource ups
                 @ StartIngestionJob d # rest"
    using load_catalogue_proceeds [of e c w0 d w1 v] by blast
qed

text \<open>
  Claim C4 as stated fails. For a data source that is not a web crawler the configuration is
  fetched and nothing is resubmitted. And where the first update is rejected over the vector
  ingestion configuration, the second call carries the request of the first unchanged.
\<close>

theorem update_not_resubmitted_or_repeated:
  "calls (update_data_source_urls s3_source_env ''nist'' ''ds-1'' [''https://a.example/x'']
      initial_world) = [GetDataSource ''ds-1'']
   \<and> calls (update_data_source_urls vector_rejecting_env ''nist'' ''ds-1''
        [''https://a.example/x''] initial_world)
      = [GetDataSource ''ds-1'', UpdateDataSource example_update_request,
         UpdateDataSource example_update_request]"
  by (simp only: s3_update_run vector_update_run)

lemma vector_resolution:
  "get_or_create_catalogue_data_source vector_rejecting_env ''nist'' initial_world
     = (Inr ''ds-1'', initial_world\<lparr>calls := [ListDataSources]\<rparr>)"
  by (simp add: get_or_create_catalogue_data_source_def find_data_source_by_name_def
      vector_rejecting_env_def example_env_def initial_world_def invoke_def)

theorem update_resubmits_and_is_not_fatal_witness:
  "get_data_source vector_rejecting_env (length (calls initial_world)) ''ds-1'' = Inr example_source
   \<and> cfg_type (dataSourceConfiguration example_source) = Some ''WEB''
   \<and> files vector_rejecting_env (ai_kb_fixtures_dir ''nist'') \<noteq> None
   \<and> get_or_create_catalogue_data_source vector_rejecting_env ''nist'' initial_world
       = (Inr ''ds-1'', initial_world\<lparr>calls := [ListDataSources]\<rparr>)
   \<and> total_chars (deduplicate_urls
        [''https://a.example/x'', ''https://b.example/y'', ''https://b.example/y'',
         ''https://c.example/'']) = 56
   \<and> (\<exists>retries. calls (update_data_source_urls vector_rejecting_env ''nist'' ''ds-1''
          [''https://a.example/x''] initial_world)
        = [GetDataSource ''ds-1'', UpdateDataSource example_update_request]
            @ map UpdateDataSource retries
        \<and> length retries = 1)
   \<and> StartIngestionJob ''ds-1''
       \<in> set (calls (snd (load_catalogue vector_rejecting_env ''nist'' initial_world)))
   \<and> get_data_source s3_source_env (length (calls initial_world)) ''ds-1'' = Inr s3_source
   \<and> cfg_type (dataSourceConfiguration s3_source) = Some ''S3''
   \<and> calls (update_data_source_urls s3_source_env ''nist'' ''ds-1'' [''https://a.example/x'']
        initial_world) = [GetDataSource ''ds-1'']
   \<and> (\<exists>msg. printed (update_data_source_urls s3_source_env ''nist'' ''ds-1''
          [''https://a.example/x''] initial_world) = [ErrorUpdating msg])"
proof -
  let ?web = "\<lparr>urlConfiguration = Some [''https://old.example/''],
      crawlerConfiguration = Some \<lparr>rateLimit = 300, inclusionFilters = [''.*'']\<rparr>\<rparr>"
  let ?v = "[''https://a.example/x'', ''https://b.example/y'', ''https://b.example/y'',
         ''https://c.example/'']"
  have g: "get_data_source vector_rejecting_env (length (calls initial_world)) ''ds-1''
      = Inr example_source"
    by (simp add: vector_rejecting_env_def example_env_def)
  have t: "cfg_type (dataSourceConfiguration example_source) = Some ''WEB''"
    by (simp add: example_source_def)
  have wb: "webConfiguration (dataSourceConfiguration example_source) = Some ?web"
    by (simp add: example_source_def)
  have u: "urlConfiguration ?web \<noteq> None"
    by simp
  have rq: "example_update_request =
          \<lparr>update_id = ''ds-1'',
           update_name = (case ds_name example_source of Some n \<Rightarrow> n
                          | None \<Rightarrow> ''fixtures-'' @ ''nist'' @ ''-kb-source''),
           update_description = (case ds_description example_source of Some t \<Rightarrow> t
                          | None \<Rightarrow> ''Catalogue-specific data source'')
                        @ '' - Updated '' @ ''nist'' @ '' URLs'',
           update_configuration = (dataSourceConfiguration example_source)
              \<lparr>webConfiguration := Some (?web\<lparr>urlConfiguration := Some [''https://a.example/x'']\<rparr>)\<rparr>\<rparr>"
    by (simp add: example_update_request_def example_source_def)
  have rej: "update_data_source vector_rejecting_env (Suc (length (calls initial_world)))
        example_update_request = Inl (Exception ''vectorIngestionConfiguration cannot be changed'')"
    by (simp add: vector_rejecting_env_def)
  have ct: "contains ''vectorIngestionConfiguration cannot be changed''
        ''vectorIngestionConfiguration''"
    by simp
  have dir: "files vector_rejecting_env (ai_kb_fixtures_dir ''nist'') \<noteq> None"
    by (simp add: vector_rejecting_env_def example_env_def example_files_def
        ai_kb_fixtures_dir_def)
  have ga: "gather_all_urls (files vector_rejecting_env) ''nist'' =
     [''https://a.example/x'', '' https://b.example/y'', ''https://b.example/y'', ''nope'',
      ''https://c.example/'']"
    by (simp add: vector_rejecting_env_def example_env_def example_gather)
  have ne: "gather_all_urls (files vector_rejecting_env) ''nist'' \<noteq> []"
    by (simp add: ga)
  have val: "validate_and_clean_urls (gather_all_urls (files vector_rejecting_env) ''nist'')
      = Inr ?v"
    by (simp only: ga example_validated)
  have tot: "total_chars (deduplicate_urls ?v) = 56"
    by (simp add: total_chars_def deduplicate_urls_def)
  have small: "total_chars (deduplicate_urls ?v) \<le> 3000"
    by (simp add: tot)
  have i: "calls initial_world = []"
    by (simp add: initial_world_def)
  note inst = update_resubmits_and_is_not_fatal [of vector_rejecting_env initial_world "''ds-1''"
      example_source ?web example_update_request "''nist''" "[''https://a.example/x'']"
      initial_world "initial_world\<lparr>calls := [ListDataSources]\<rparr>" ?v]
  from inst g t wb u rq obtain retries where
    r1: "calls (update_data_source_urls vector_rejecting_env ''nist'' ''ds-1''
          [''https://a.example/x''] initial_world)
        = calls initial_world @ GetDataSource ''ds-1'' # UpdateDataSource example_update_request
            # map UpdateDataSource retries"
    and r2: "length retries =
        (case update_data_source vector_rejecting_env (Suc (length (calls initial_world)))
            example_update_request of
           Inr _ \<Rightarrow> 0
         | Inl err \<Rightarrow>
             if contains (str_exn err) ''vectorIngestionConfiguration'' then 1 else 0)"
    by blast
  have r3: "length retries = 1"
    using r2 rej ct by simp
  from inst dir vector_resolution ne val small obtain ups rest where
    "calls (snd (load_catalogue vector_rejecting_env ''nist'' initial_world))
       = calls (initial_world\<lparr>calls := [ListDataSources]\<rparr>) @ GetDataSource ''ds-1''
           # map UpdateDataSource ups @ StartIngestionJob ''ds-1'' # rest"
    by blast
  then have s: "StartIngestionJob ''ds-1''
       \<in> set (calls (snd (load_catalogue vector_rejecting_env ''nist'' initial_world)))"
    by simp
  from r1 r3 i have "\<exists>retries. calls (update_data_source_urls vector_rejecting_env ''nist''
          ''ds-1'' [''https://a.example/x''] initial_world)
        = [GetDataSource ''ds-1'', UpdateDataSource example_update_request]
            @ map UpdateDataSource retries
        \<and> length retries = 1"
    by auto
  then have web_part: "get_data_source vector_rejecting_env (length (calls initial_world)) ''ds-1''
        = Inr example_source
      \<and> cfg_type (dataSourceConfiguration example_source) = Some ''WEB''
      \<and> files vector_rejecting_env (ai_kb_fixtures_dir ''nist'') \<noteq> None
      \<and> get_or_create_catalogue_data_source vector_rejecting_env ''nist'' initial_world
          = (Inr ''ds-1'', initial_world\<lparr>calls := [ListDataSources]\<rparr>)
      \<and> total_chars (deduplicate_urls ?v) = 56
      \<and> (\<exists>retries. calls (update_data_source_urls vector_rejecting_env ''nist'' ''ds-1''
            [''https://a.example/x''] initial_world)
          = [GetDataSource ''ds-1'', UpdateDataSource example_update_request]
              @ map UpdateDataSource retries
          \<and> length retries = 1)
      \<and> StartIngestionJob ''ds-1''
          \<in> set (calls (snd (load_catalogue vector_rejecting_env ''nist'' initial_world)))"
    using g t dir vector_resolution tot s by blast
  have sg: "get_data_source s3_source_env (length (calls initial_world)) ''ds-1'' = Inr s3_source"
    by (simp add: s3_source_env_def)
  have sty: "cfg_type (dataSourceConfiguration s3_source) = Some ''S3''"
    by (simp add: s3_source_def)
  have pw: "printed initial_world = []"
    by (simp add: initial_world_def)
  note other = update_resubmits_and_is_not_fatal [of s3_source_env initial_world "''ds-1''"
      s3_source ?web example_update_request "''nist''" "[''https://a.example/x'']"
      initial_world initial_world ?v]
  from other s3_not_web i pw
  have skipped: "calls (update_data_source_urls s3_source_env ''nist'' ''ds-1''
          [''https://a.example/x''] initial_world) = [GetDataSource ''ds-1'']
      \<and> (\<exists>msg. printed (update_data_source_urls s3_source_env ''nist'' ''ds-1''
            [''https://a.example/x''] initial_world) = [ErrorUpdating msg])"
    by simp
  from web_part sg sty skipped show ?thesis by blast
qed

lemma clock_print [simp]: "clock (print m w) = clock w"
  by (simp add: print_def)

lemma clock_invoke [simp]: "clock (invoke c w) = clock w"
  by (simp add: invoke_def)

lemma clock_sleep [simp]: "clock (sleep n w) = clock w + n"
  by (simp add: sleep_def)

lemma wait_loop_expired:
  "\<not> int (clock w) - int s < int (t * 60) \<Longrightarrow>
     wait_loop e d j s t w = (False, print (TimeoutLine t) w)"
  by (subst wait_loop.simps) simp

lemma wait_loop_complete:
  "int (clock w) - int s < int (t * 60) \<Longrightarrow>
   get_ingestion_job e (length (calls w)) d j = (took, Inr job) \<Longrightarrow>
   status job = ''COMPLETE'' \<Longrightarrow>
     wait_loop e d j s t w
       = (True, print IngestionCompleted (sleep took (invoke (GetIngestionJob d j) w)))"
  by (subst wait_loop.simps) simp

lemma wait_loop_failed:
  "int (clock w) - int s < int (t * 60) \<Longrightarrow>
   get_ingestion_job e (length (calls w)) d j = (took, Inr job) \<Longrightarrow>
   status job = ''FAILED'' \<Longrightarrow>
     wait_loop e d j s t w
       = (False, print (IngestionFailed (failureReasons job))
                   (sleep took (invoke (GetIngestionJob d j) w)))"
  by (subst wait_loop.simps) simp

lemma wait_loop_error:
  "int (clock w) - int s < int (t * 60) \<Longrightarrow>
   get_ingestion_job e (length (calls w)) d j = (took, Inl err) \<Longrightarrow>
     wait_loop e d j s t w
       = wait_loop e d j s t
           (sleep 30 (print (ErrorCheckingStatus (str_exn err))
              (sleep took (invoke (GetIngestionJob d j) w))))"
  by (subst wait_loop.simps) simp

lemma wait_loop_other:
  "int (clock w) - int s < int (t * 60) \<Longrightarrow>
   get_ingestion_job e (length (calls w)) d j = (took, Inr job) \<Longrightarrow>
   status job \<noteq> ''COMPLETE'' \<Longrightarrow> status job \<noteq> ''FAILED'' \<Longrightarrow>
     wait_loop e d j s t w
       = wait_loop e d j s t
           (sleep 30 (print (if status job = ''IN_PROGRESS'' \<or> status job = ''STARTING''
                             then StatusElapsed (status job) (clock w + took - s)
                             else StatusLine (status job))
              (sleep took (invoke (GetIngestionJob d j) w))))"
  by (subst wait_loop.simps) (simp add: Let_def)

text \<open>A poll answer that ends the loop: a job whose status is COMPLETE or FAILED.\<close>

lemma wait_loop_cases:
  obtains (expired) "\<not> int (clock w) - int s < int (t * 60)"
  | (complete) took job where "int (clock w) - int s < int (t * 60)"
      "get_ingestion_job e (length (calls w)) d j = (took, Inr job)" "status job = ''COMPLETE''"
  | (failed) took job where "int (clock w) - int s < int (t * 60)"
      "get_ingestion_job e (length (calls w)) d j = (took, Inr job)" "status job = ''FAILED''"
  | (error) took err where "int (clock w) - int s < int (t * 60)"
      "get_ingestion_job e (length (calls w)) d j = (took, Inl err)"
  | (other) took job where "int (clock w) - int s < int (t * 60)"
      "get_ingestion_job e (length (calls w)) d j = (took, Inr job)"
      "status job \<noteq> ''COMPLETE''" "status job \<noteq> ''FAILED''"
proof (cases "int (clock w) - int s < int (t * 60)")
  case False
  then show ?thesis by (rule expired)
next
  case True
  obtain took resp where g: "get_ingestion_job e (length (calls w)) d j = (took, resp)"
    by (cases "get_ingestion_job e (length (calls w)) d j")
  show ?thesis
  proof (cases resp)
    case (Inl err)
    with True g show ?thesis by (auto intro: error)
  next
    case (Inr job)
    with True g show ?thesis
      by (cases "status job = ''COMPLETE''"; cases "status job = ''FAILED''")
         (auto intro: complete failed other)
  qed
qed

text \<open>
  The induction the loop admits: a property holds of every world when it holds of the worlds
  where the loop stops, and is handed back from the world after a retry.
\<close>

lemma wait_loop_world_induct [consumes 0, case_names stop retry]:
  assumes stop: "\<And>w. \<not> int (clock w) - int s < int (t * 60)
        \<or> (\<exists>took job. get_ingestion_job e (length (calls w)) d j = (took, Inr job)
              \<and> (status job = ''COMPLETE'' \<or> status job = ''FAILED'')) \<Longrightarrow> P w"
    and retry: "\<And>w took m. int (clock w) - int s < int (t * 60) \<Longrightarrow>
        wait_loop e d j s t w
          = wait_loop e d j s t (sleep 30 (print m (sleep took (invoke (GetIngestionJob d j) w))))
        \<Longrightarrow> fst (get_ingestion_job e (length (calls w)) d j) = took
        \<Longrightarrow> (\<forall>job. snd (get_ingestion_job e (length (calls w)) d j) = Inr job
               \<longrightarrow> status job \<noteq> ''COMPLETE'' \<and> status job \<noteq> ''FAILED'')
        \<Longrightarrow> (\<forall>rs. m \<noteq> IngestionFailed rs) \<Longrightarrow> m \<noteq> IngestionCompleted
        \<Longrightarrow> P (sleep 30 (print m (sleep took (invoke (GetIngestionJob d j) w))))
        \<Longrightarrow> P w"
  shows "P w"
proof (induction w rule: measure_induct_rule
    [where f = "\<lambda>w. nat (int (t * 60) - (int (clock w) - int s))"])
  case (less w)
  show ?case
  proof (cases rule: wait_loop_cases [where w = w and s = s and t = t and e = e and d = d and j = j])
    case expired
    then show ?thesis by (intro stop) simp
  next
    case (complete took job)
    then show ?thesis by (intro stop) auto
  next
    case (failed took job)
    then show ?thesis by (intro stop) auto
  next
    case (error took err)
    let ?w' = "sleep 30 (print (ErrorCheckingStatus (str_exn err))
        (sleep took (invoke (GetIngestionJob d j) w)))"
    have "P ?w'"
      using error(1) by (intro less) simp
    then show ?thesis
      using error wait_loop_error [OF error]
      by (intro retry [of w "ErrorCheckingStatus (str_exn err)" took]) auto
  next
    case (other took job)
    let ?m = "if status job = ''IN_PROGRESS'' \<or> status job = ''STARTING''
        then StatusElapsed (status job) (clock w + took - s) else StatusLine (status job)"
    let ?w' = "sleep 30 (print ?m (sleep took (invoke (GetIngestionJob d j) w)))"
    have "P ?w'"
      using other(1) by (intro less) simp
    then show ?thesis
      using other wait_loop_other [OF other]
      by (intro retry [of w ?m took]) auto
  qed
qed


lemma wait_loop_true:
  "fst (wait_loop e d j s t w) \<longrightarrow>
     (\<exists>k took job. length (calls w) \<le> k
        \<and> Suc k = length (calls (snd (wait_loop e d j s t w)))
        \<and> get_ingestion_job e k d j = (took, Inr job) \<and> status job = ''COMPLETE'')"
proof (induction w rule: wait_loop_world_induct [where e = e and d = d and j = j and s = s and t = t])
  case (stop w)
  show ?case
  proof (cases rule: wait_loop_cases [where w = w and s = s and t = t and e = e and d = d and j = j])
    case expired
    then show ?thesis by (simp add: wait_loop_expired)
  next
    case (complete took job)
    then show ?thesis
      by (auto simp: wait_loop_complete)
  next
    case (failed took job)
    then show ?thesis by (simp add: wait_loop_failed)
  next
    case (error took err)
    with stop show ?thesis by auto
  next
    case (other took job)
    with stop show ?thesis by auto
  qed
next
  case (retry w took m)
  show ?case
  proof
    assume "fst (wait_loop e d j s t w)"
    with retry obtain k took' job where
      "length (calls (sleep 30 (print m (sleep took (invoke (GetIngestionJob d j) w))))) \<le> k"
      "Suc k = length (calls (snd (wait_loop e d j s t w)))"
      "get_ingestion_job e k d j = (took', Inr job)" "status job = ''COMPLETE''"
      by auto
    then show "\<exists>k took job. length (calls w) \<le> k
        \<and> Suc k = length (calls (snd (wait_loop e d j s t w)))
        \<and> get_ingestion_job e k d j = (took, Inr job) \<and> status job = ''COMPLETE''"
      by (intro exI [of _ k] exI [of _ took'] exI [of _ job]) simp
  qed
qed

lemma wait_loop_reports_failed:
  "IngestionFailed rs \<in> set (printed (snd (wait_loop e d j s t w)))
     \<and> IngestionFailed rs \<notin> set (printed w) \<longrightarrow>
     \<not> fst (wait_loop e d j s t w)
     \<and> (\<exists>k took job. length (calls w) \<le> k
        \<and> Suc k = length (calls (snd (wait_loop e d j s t w)))
        \<and> get_ingestion_job e k d j = (took, Inr job) \<and> status job = ''FAILED''
        \<and> failureReasons job = rs)"
proof (induction w rule: wait_loop_world_induct [where e = e and d = d and j = j and s = s and t = t])
  case (stop w)
  show ?case
  proof (cases rule: wait_loop_cases [where w = w and s = s and t = t and e = e and d = d and j = j])
    case expired
    then show ?thesis by (simp add: wait_loop_expired)
  next
    case (complete took job)
    then show ?thesis by (simp add: wait_loop_complete)
  next
    case (failed took job)
    then show ?thesis
      by (auto simp: wait_loop_failed)
  next
    case (error took err)
    with stop show ?thesis by auto
  next
    case (other took job)
    with stop show ?thesis by auto
  qed
next
  case (retry w took m)
  show ?case
  proof
    assume a: "IngestionFailed rs \<in> set (printed (snd (wait_loop e d j s t w)))
        \<and> IngestionFailed rs \<notin> set (printed w)"
    with retry have "IngestionFailed rs
        \<notin> set (printed (sleep 30 (print m (sleep took (invoke (GetIngestionJob d j) w)))))"
      by auto
    with a retry obtain k took' job where f: "\<not> fst (wait_loop e d j s t w)"
      and "length (calls (sleep 30 (print m (sleep took (invoke (GetIngestionJob d j) w))))) \<le> k"
      "Suc k = length (calls (snd (wait_loop e d j s t w)))"
      "get_ingestion_job e k d j = (took', Inr job)" "status job = ''FAILED''"
      "failureReasons job = rs"
      by auto
    then have "\<exists>k took job. length (calls w) \<le> k
        \<and> Suc k = length (calls (snd (wait_loop e d j s t w)))
        \<and> get_ingestion_job e k d j = (took, Inr job) \<and> status job = ''FAILED''
        \<and> failureReasons job = rs"
      by (intro exI [of _ k] exI [of _ took'] exI [of _ job]) simp
    with f show "\<not> fst (wait_loop e d j s t w)
     \<and> (\<exists>k took job. length (calls w) \<le> k
        \<and> Suc k = length (calls (snd (wait_loop e d j s t w)))
        \<and> get_ingestion_job e k d j = (took, Inr job) \<and> status job = ''FAILED''
        \<and> failureReasons job = rs)"
      by simp
  qed
qed

lemma wait_loop_retries:
  assumes "int (clock w) - int s < int (t * 60)"
    and "get_ingestion_job e (length (calls w)) d j = (took, resp)"
    and "(\<exists>err. resp = Inl err)
       \<or> (\<exists>job. resp = Inr job \<and> status job \<noteq> ''COMPLETE'' \<and> status job \<noteq> ''FAILED'')"
  shows "\<exists>m. wait_loop e d j s t w
       = wait_loop e d j s t (sleep 30 (print m (sleep took (invoke (GetIngestionJob d j) w))))"
  using assms wait_loop_error [of w s t e d j took] wait_loop_other [of w s t e d j took]
  by blast



lemma failed_poll:
  "get_ingestion_job failed_env k ''ds-1'' ''job-1''
     = (1, Inr \<lparr>status = ''FAILED'', failureReasons = [''crawl error'']\<rparr>)"
  by (simp add: failed_env_def)





text \<open>
  Claim C3: the loop returns \<^verbatim>\<open>True\<close> only when the last query it made answered COMPLETE;
  it prints the failure line only with the reasons of a query that answered FAILED, which
  was its last, and then returns \<^verbatim>\<open>False\<close>; while the budget lasts, an error or any other
  status makes it sleep 30 seconds after the query and go on as the same loop (same start
  time, same timeout) from the later clock, COMPLETE makes it return \<^verbatim>\<open>True\<close>, and FAILED
  makes it return \<^verbatim>\<open>False\<close> with the reasons printed. The monitor is this loop started at
  the current clock.
\<close>

theorem poll_loop_transitions:
  "(fst (wait_loop e d j s t w) \<longrightarrow>
      (\<exists>k took job. length (calls w) \<le> k
         \<and> Suc k = length (calls (snd (wait_loop e d j s t w)))
         \<and> get_ingestion_job e k d j = (took, Inr job) \<and> status job = ''COMPLETE''))
   \<and> (IngestionFailed rs \<in> set (printed (snd (wait_loop e d j s t w)))
        \<and> IngestionFailed rs \<notin> set (printed w) \<longrightarrow>
      \<not> fst (wait_loop e d j s t w)
      \<and> (\<exists>k took job. length (calls w) \<le> k
         \<and> Suc k = length (calls (snd (wait_loop e d j s t w)))
         \<and> get_ingestion_job e k d j = (took, Inr job) \<and> status job = ''FAILED''
         \<and> failureReasons job = rs))
   \<and> (int (clock w) - int s < int (t * 60)
        \<and> get_ingestion_job e (length (calls w)) d j = (took, resp)
        \<and> ((\<exists>err. resp = Inl err)
           \<or> (\<exists>job. resp = Inr job \<and> status job \<noteq> ''COMPLETE'' \<and> status job \<noteq> ''FAILED''))
      \<longrightarrow> (\<exists>m. wait_loop e d j s t w
             = wait_loop e d j s t
                 (sleep 30 (print m (sleep took (invoke (GetIngestionJob d j) w))))))
   \<and> (int (clock w) - int s < int (t * 60)
        \<and> get_ingestion_job e (length (calls w)) d j = (took, Inr job)
        \<and> status job = ''COMPLETE''
      \<longrightarrow> wait_loop e d j s t w
            = (True, print IngestionCompleted (sleep took (invoke (GetIngestionJob d j) w))))
   \<and> (int (clock w) - int s < int (t * 60)
        \<and> get_ingestion_job e (length (calls w)) d j = (took, Inr job)
        \<and> status job = ''FAILED''
      \<longrightarrow> wait_loop e d j s t w
            = (False, print (IngestionFailed (failureReasons job))
                        (sleep took (invoke (GetIngestionJob d j) w))))
   \<and> wait_for_ingestion_completion e d j t w = wait_loop e d j (clock w) t w"
proof (intro conjI)
  show "fst (wait_loop e d j s t w) \<longrightarrow>
      (\<exists>k took job. length (calls w) \<le> k
         \<and> Suc k = length (calls (snd (wait_loop e d j s t w)))
         \<and> get_ingestion_job e k d j = (took, Inr job) \<and> status job = ''COMPLETE'')"
    by (rule wait_loop_true)
  show "IngestionFailed rs \<in> set (printed (snd (wait_loop e d j s t w)))
        \<and> IngestionFailed rs \<notin> set (printed w) \<longrightarrow>
      \<not> fst (wait_loop e d j s t w)
      \<and> (\<exists>k took job. length (calls w) \<le> k
         \<and> Suc k = length (calls (snd (wait_loop e d j s t w)))
         \<and> get_ingestion_job e k d j = (took, Inr job) \<and> status job = ''FAILED''
         \<and> failureReasons job = rs)"
    by (rule wait_loop_reports_failed)
  show "int (clock w) - int s < int (t * 60)
        \<and> get_ingestion_job e (length (calls w)) d j = (took, resp)
        \<and> ((\<exists>err. resp = Inl err)
           \<or> (\<exists>job. resp = Inr job \<and> status job \<noteq> ''COMPLETE'' \<and> status job \<noteq> ''FAILED''))
      \<longrightarrow> (\<exists>m. wait_loop e d j s t w
             = wait_loop e d j s t
                 (sleep 30 (print m (sleep took (invoke (GetIngestionJob d j) w)))))"
    using wait_loop_retries [of w s t e d j took resp] by blast
  show "int (clock w) - int s < int (t * 60)
        \<and> get_ingestion_job e (length (calls w)) d j = (took, Inr job)
        \<and> status job = ''COMPLETE''
      \<longrightarrow> wait_loop e d j s t w
            = (True, print IngestionCompleted (sleep took (invoke (GetIngestionJob d j) w)))"
    using wait_loop_complete [of w s t e d j took job] by blast
  show "int (clock w) - int s < int (t * 60)
        \<and> get_ingestion_job e (length (calls w)) d j = (took, Inr job)
        \<and> status job = ''FAILED''
      \<longrightarrow> wait_loop e d j s t w
            = (False, print (IngestionFailed (failureReasons job))
                        (sleep took (invoke (GetIngestionJob d j) w)))"
    using wait_loop_failed [of w s t e d j took job] by blast
  show "wait_for_ingestion_completion e d j t w = wait_loop e d j (clock w) t w"
    by (simp add: wait_for_ingestion_completion_def)
qed

lemma example_poll:
  "get_ingestion_job example_env k ''ds-1'' ''job-1''
     = (1, Inr \<lparr>status = ''COMPLETE'', failureReasons = []\<rparr>)"
  by (simp add: example_env_def)

lemma never_done_poll:
  "get_ingestion_job never_done_env k ''ds-1'' ''job-1''
     = (1, Inr \<lparr>status = ''IN_PROGRESS'', failureReasons = []\<rparr>)"
  by (simp add: never_done_env_def)

theorem poll_loop_transitions_witness:
  "int (clock initial_world) - int 1000 < int (20 * 60)
   \<and> get_ingestion_job example_env (length (calls initial_world)) ''ds-1'' ''job-1''
       = (1, Inr \<lparr>status = ''COMPLETE'', failureReasons = []\<rparr>)
   \<and> fst (wait_loop example_env ''ds-1'' ''job-1'' 1000 20 initial_world)
   \<and> (\<exists>k took job. length (calls initial_world) \<le> k
        \<and> Suc k = length (calls (snd (wait_loop example_env ''ds-1'' ''job-1'' 1000 20
             initial_world)))
        \<and> get_ingestion_job example_env k ''ds-1'' ''job-1'' = (took, Inr job)
        \<and> status job = ''COMPLETE'')
   \<and> get_ingestion_job failed_env (length (calls initial_world)) ''ds-1'' ''job-1''
       = (1, Inr \<lparr>status = ''FAILED'', failureReasons = [''crawl error'']\<rparr>)
   \<and> IngestionFailed [''crawl error'']
       \<in> set (printed (snd (wait_loop failed_env ''ds-1'' ''job-1'' 1000 20 initial_world)))
   \<and> IngestionFailed [''crawl error''] \<notin> set (printed initial_world)
   \<and> \<not> fst (wait_loop failed_env ''ds-1'' ''job-1'' 1000 20 initial_world)
   \<and> get_ingestion_job never_done_env (length (calls initial_world)) ''ds-1'' ''job-1''
       = (1, Inr \<lparr>status = ''IN_PROGRESS'', failureReasons = []\<rparr>)
   \<and> (\<exists>m. wait_loop never_done_env ''ds-1'' ''job-1'' 1000 20 initial_world
        = wait_loop never_done_env ''ds-1'' ''job-1'' 1000 20
            (sleep 30 (print m (sleep 1 (invoke (GetIngestionJob ''ds-1'' ''job-1'')
               initial_world)))))"
proof -
  let ?done = "\<lparr>status = ''COMPLETE'', failureReasons = []\<rparr>"
  let ?bad = "\<lparr>status = ''FAILED'', failureReasons = [''crawl error'']\<rparr>"
  let ?busy = "\<lparr>status = ''IN_PROGRESS'', failureReasons = []\<rparr>"
  have b: "int (clock initial_world) - int 1000 < int (20 * 60)"
    by (simp add: initial_world_def)
  have np: "IngestionFailed [''crawl error''] \<notin> set (printed initial_world)"
    by (simp add: initial_world_def)
  note pe = example_poll [of "length (calls initial_world)"]
  note pf = failed_poll [of "length (calls initial_world)"]
  note pn = never_done_poll [of "length (calls initial_world)"]
  note a = poll_loop_transitions [of example_env "''ds-1''" "''job-1''" 1000 20 initial_world
      "[]" 1 "Inr ?done" ?done]
  note f = poll_loop_transitions [of failed_env "''ds-1''" "''job-1''" 1000 20 initial_world
      "[''crawl error'']" 1 "Inr ?bad" ?bad]
  note n = poll_loop_transitions [of never_done_env "''ds-1''" "''job-1''" 1000 20 initial_world
      "[]" 1 "Inr ?busy" ?busy]
  from a b pe have a1: "wait_loop example_env ''ds-1'' ''job-1'' 1000 20 initial_world
      = (True, print IngestionCompleted (sleep 1 (invoke (GetIngestionJob ''ds-1'' ''job-1'')
          initial_world)))"
    by simp
  then have a2: "fst (wait_loop example_env ''ds-1'' ''job-1'' 1000 20 initial_world)"
    by simp
  with a have a3: "\<exists>k took job. length (calls initial_world) \<le> k
        \<and> Suc k = length (calls (snd (wait_loop example_env ''ds-1'' ''job-1'' 1000 20
             initial_world)))
        \<and> get_ingestion_job example_env k ''ds-1'' ''job-1'' = (took, Inr job)
        \<and> status job = ''COMPLETE''"
    by blast
  from f b pf have f1: "wait_loop failed_env ''ds-1'' ''job-1'' 1000 20 initial_world
      = (False, print (IngestionFailed [''crawl error''])
          (sleep 1 (invoke (GetIngestionJob ''ds-1'' ''job-1'') initial_world)))"
    by simp
  then have f2: "IngestionFailed [''crawl error'']
       \<in> set (printed (snd (wait_loop failed_env ''ds-1'' ''job-1'' 1000 20 initial_world)))"
    by simp
  with f np have f3: "\<not> fst (wait_loop failed_env ''ds-1'' ''job-1'' 1000 20 initial_world)"
    by blast
  from n b pn have n1: "\<exists>m. wait_loop never_done_env ''ds-1'' ''job-1'' 1000 20 initial_world
        = wait_loop never_done_env ''ds-1'' ''job-1'' 1000 20
            (sleep 30 (print m (sleep 1 (invoke (GetIngestionJob ''ds-1'' ''job-1'')
               initial_world))))"
    by simp
  from b pe a2 a3 pf f2 np f3 pn n1 show ?thesis by blast
qed

lemma validate_loop_flags:
  "validate_loop i urls = Inr (valid_urls, issues) \<Longrightarrow> u \<in> set valid_urls \<Longrightarrow>
     set (quality_issues u) \<subseteq> set issues"
proof (induction urls arbitrary: i valid_urls issues)
  case Nil
  then show ?case by simp
next
  case (Cons url urls)
  then show ?case
    by (auto simp: Let_def split: if_splits sum.splits prod.splits) blast+
qed

text \<open>
  Property X1, what validation does whenever it returns: the URLs it keeps are the trimmed inputs that
  are well formed, in their order, and a kept URL of more than 200 characters or with one
  of the non-production patterns is among them all the same, with its issue recorded.
\<close>

theorem validation_keeps_well_formed:
  "validate_and_report urls = Inr (valid_urls, issues) \<longrightarrow>
     valid_urls = filter well_formed (map strip urls)
     \<and> (\<forall>u\<in>set valid_urls.
          (length u > 200 \<longrightarrow> VeryLong (length u) (take 50 u) \<in> set issues)
          \<and> (is_suspicious u \<longrightarrow> Suspicious (take 50 u) \<in> set issues))"
proof
  assume r: "validate_and_report urls = Inr (valid_urls, issues)"
  then have v: "valid_urls = filter well_formed (map strip urls)"
    unfolding validate_and_report_def by (rule validate_loop_valid)
  have "\<forall>u\<in>set valid_urls.
          (length u > 200 \<longrightarrow> VeryLong (length u) (take 50 u) \<in> set issues)
          \<and> (is_suspicious u \<longrightarrow> Suspicious (take 50 u) \<in> set issues)"
  proof
    fix u
    assume "u \<in> set valid_urls"
    with r have "set (quality_issues u) \<subseteq> set issues"
      unfolding validate_and_report_def by (rule validate_loop_flags)
    then show "(length u > 200 \<longrightarrow> VeryLong (length u) (take 50 u) \<in> set issues)
          \<and> (is_suspicious u \<longrightarrow> Suspicious (take 50 u) \<in> set issues)"
      by (auto simp: quality_issues_def split: if_splits)
  qed
  with v show "valid_urls = filter well_formed (map strip urls)
     \<and> (\<forall>u\<in>set valid_urls.
          (length u > 200 \<longrightarrow> VeryLong (length u) (take 50 u) \<in> set issues)
          \<and> (is_suspicious u \<longrightarrow> Suspicious (take 50 u) \<in> set issues))"
    by simp
qed

lemma staging_report:
  "validate_and_report ['' http://Staging.example/ '', ''nope'']
     = Inr ([''http://Staging.example/''],
            [Suspicious ''http://Staging.example/'', InvalidFormat ''nope''])"
  by (simp add: validate_and_report_def strip_def isspace_def
      urlparse_def split_scheme_def is_ascii_alpha_def is_scheme_char_def is_c0_or_space_def
      is_unsafe_byte_def is_netloc_delim_def lower_def lower_char_def Let_def
      quality_issues_def is_suspicious_def suspicious_patterns_def re_search_ignorecase_def
      char_of_eq_iff)

theorem validation_keeps_well_formed_witness:
  "validate_and_report ['' http://Staging.example/ '', ''nope'']
     = Inr ([''http://Staging.example/''],
            [Suspicious ''http://Staging.example/'', InvalidFormat ''nope''])
   \<and> [''http://Staging.example/'']
       = filter well_formed (map strip ['' http://Staging.example/ '', ''nope''])
   \<and> is_suspicious ''http://Staging.example/''
   \<and> Suspicious (take 50 ''http://Staging.example/'')
       \<in> set [Suspicious ''http://Staging.example/'', InvalidFormat ''nope'']"
proof -
  have s: "is_suspicious ''http://Staging.example/''"
    by (simp add: is_suspicious_def suspicious_patterns_def re_search_ignorecase_def
        lower_def lower_char_def char_of_eq_iff)
  from validation_keeps_well_formed [of "['' http://Staging.example/ '', ''nope'']"
      "[''http://Staging.example/'']"
      "[Suspicious ''http://Staging.example/'', InvalidFormat ''nope'']"]
    staging_report s
  show ?thesis by simp
qed

end
